theory Spec2Isabelle
  imports Complex_Main "HOL-Library.Log_Nat"
begin

section \<open>Data model (models/financial\_data.py)\<close>

text \<open>
  Conventions of the embedding.
  \<^item> A Python \<open>date\<close> is its proleptic ordinal (an \<open>int\<close> of days), so that
    \<open>(d1 - d2).days\<close> is integer subtraction.
  \<^item> A Python \<open>datetime\<close> is a count of microseconds together with the information
    whether it carries a time zone: \<open>datetime.now()\<close> is always naive, and comparing or
    subtracting a naive and an aware value raises \<open>TypeError\<close> in Python.
  \<^item> \<open>Decimal\<close> and \<open>float\<close> values are exact rationals. In the quality service the
    rounding error of binary floating point is not modelled; the conversion
    \<open>float(Decimal)\<close> of the orchestrator is (\<open>float_of_decimal\<close>).
  \<^item> An \<open>Optional\<close> field is an \<open>option\<close>; Python truthiness is written out where the
    source relies on it (\<open>None\<close>, \<open>0\<close>, the empty string and the empty list are falsy).
  \<^item> Fields named \<open>symbol\<close> in several classes carry the class as a prefix, since
    record fields are global constants.
\<close>

type_synonym date = int

datatype datetime = Naive int | Aware int

datatype error = TypeError | ValueError | JSONDecodeError | UnicodeDecodeError | OtherError

datatype DataSource = YAHOO_FINANCE | ALPHA_VANTAGE | MANUAL

record StockPrice =
  price_symbol :: string
  price_date :: date
  open_price :: "rat option"
  high_price :: "rat option"
  low_price :: "rat option"
  close_price :: rat
  adjusted_close :: "rat option"
  volume :: "int option"

record CompanyInfo =
  company_symbol :: string
  company_name :: string
  sector :: "string option"
  industry :: "string option"
  market_cap :: "rat option"
  enterprise_value :: "rat option"
  trailing_pe :: "rat option"
  forward_pe :: "rat option"
  peg_ratio :: "rat option"
  price_to_book :: "rat option"
  price_to_sales :: "rat option"
  beta :: "rat option"
  dividend_yield :: "rat option"
  description :: "string option"
  website :: "string option"
  employees :: "int option"

text \<open>Of the three statement documents only the fields the quality service reads are kept.\<close>

record IncomeStatement =
  revenue :: "rat option"
  net_income :: "rat option"

record BalanceSheet =
  total_assets :: "rat option"
  total_liabilities :: "rat option"
  total_equity :: "rat option"

record CashFlowStatement =
  operating_cash_flow :: "rat option"
  free_cash_flow :: "rat option"

record FinancialStatement =
  stmt_symbol :: string
  period_ending :: date
  period_type :: string
  income_statement :: "IncomeStatement option"
  balance_sheet :: "BalanceSheet option"
  cash_flow_statement :: "CashFlowStatement option"
  stmt_data_source :: DataSource
  stmt_last_updated :: datetime

text \<open>
  The issue strings of the quality service are f-strings; each constructor below is one
  message template, its arguments the interpolated values.
\<close>

datatype issue =
    MissingCompanyInfo string
  | CompanyInformationMissing
  | MissingCurrentPrice string
  | CurrentPriceDataMissing
  | LimitedHistorical
  | InsufficientHistorical
  | NoHistorical
  | LimitedStatements
  | NoRecentStatements
  | MissingIncomeStatement date
  | MissingBalanceSheet date
  | MissingCashFlowStatement date
  | NoFinancialStatements
  | CurrentPriceOld int
  | NoCurrentPriceAvailable
  | HistoricalOld int
  | LatestStatementOld int
  | DataLastUpdated rat
  | FreshnessFailed error
  | MissingClosePrice date
  | OpenNotBetween date
  | CloseNotBetween date
  | UnreasonableClose date rat
  | NegativeVolume date
  | HistoricalValidationIssues nat nat
  | StatementValidationIssues nat nat
  | MissingCompanyName
  | InvalidMarketCap
  | UnreasonablePE rat
  | ExtremeBeta rat
  | SymbolInconsistency "string set"
  | DateGaps nat
  | IrregularIntervals rat
  | PriceOutliers nat nat rat
  | AssessmentFailed error

record DataQualityMetrics =
  dq_symbol :: string
  dq_data_source :: DataSource
  quality_score :: rat
  completeness_score :: rat
  freshness_score :: rat
  accuracy_score :: rat
  issues :: "issue list"

record StockData =
  symbol :: string
  company_info :: "CompanyInfo option"
  current_price :: "StockPrice option"
  historical_prices :: "StockPrice list"
  financial_statements :: "FinancialStatement list"
  data_quality :: "DataQualityMetrics option"
  last_updated :: datetime

record APIRateLimit =
  api_name :: string
  endpoint :: string
  requests_made :: int
  requests_limit :: int
  reset_time :: datetime

definition is_limit_exceeded :: "APIRateLimit \<Rightarrow> bool" where
  "is_limit_exceeded rl = (requests_made rl \<ge> requests_limit rl)"

definition validate_score_range :: "rat \<Rightarrow> bool" where
  "validate_score_range v = (0 \<le> v \<and> v \<le> 100)"

section \<open>Quality assessor (services/data\_quality\_service.py)\<close>

definition mean :: "rat list \<Rightarrow> rat" where
  "mean xs = sum_list xs / of_nat (length xs)"

definition truthy :: "rat option \<Rightarrow> bool" where
  "truthy v = (case v of None \<Rightarrow> False | Some x \<Rightarrow> x \<noteq> 0)"

subsection \<open>Completeness\<close>

definition company_fields :: "CompanyInfo \<Rightarrow> (string \<times> bool) list" where
  "company_fields ci =
     [(''company_name'', True),
      (''sector'', sector ci \<noteq> None),
      (''industry'', industry ci \<noteq> None),
      (''market_cap'', market_cap ci \<noteq> None),
      (''trailing_pe'', trailing_pe ci \<noteq> None),
      (''beta'', beta ci \<noteq> None),
      (''description'', description ci \<noteq> None)]"

definition price_fields :: "StockPrice \<Rightarrow> (string \<times> bool) list" where
  "price_fields p =
     [(''open_price'', open_price p \<noteq> None),
      (''high_price'', high_price p \<noteq> None),
      (''low_price'', low_price p \<noteq> None),
      (''close_price'', True),
      (''volume'', volume p \<noteq> None)]"

text \<open>
  One pass of a \<open>for field in fields\<close> loop: every field counts towards the total, a
  populated one towards the completed fields, a missing one appends an issue.
  The triples are (total\_fields, completed\_fields, issues).
\<close>

definition count_fields :: "(string \<Rightarrow> issue) \<Rightarrow> (string \<times> bool) list \<Rightarrow> nat \<times> nat \<times> issue list" where
  "count_fields mk fs =
     (length fs, length (filter snd fs), map (\<lambda>f. mk (fst f)) (filter (\<lambda>f. \<not> snd f) fs))"

definition completeness_company :: "CompanyInfo option \<Rightarrow> nat \<times> nat \<times> issue list" where
  "completeness_company oci =
     (case oci of
        Some ci \<Rightarrow> count_fields MissingCompanyInfo (company_fields ci)
      | None \<Rightarrow> (7, 0, [CompanyInformationMissing]))"

definition completeness_price :: "StockPrice option \<Rightarrow> nat \<times> nat \<times> issue list" where
  "completeness_price op =
     (case op of
        Some p \<Rightarrow> count_fields MissingCurrentPrice (price_fields p)
      | None \<Rightarrow> (5, 0, [CurrentPriceDataMissing]))"

definition completeness_historical :: "StockPrice list \<Rightarrow> nat \<times> nat \<times> issue list" where
  "completeness_historical hs =
     (if hs \<noteq> [] then
        (if length hs \<ge> 30 then (2, 2, [])
         else if length hs \<ge> 7 then (2, 1, [LimitedHistorical])
         else (2, 0, [InsufficientHistorical]))
      else (2, 0, [NoHistorical]))"

definition statement_components :: "FinancialStatement \<Rightarrow> nat \<times> nat \<times> issue list" where
  "statement_components stmt =
     (3,
      (if income_statement stmt \<noteq> None then 1 else 0) +
      (if balance_sheet stmt \<noteq> None then 1 else 0) +
      (if cash_flow_statement stmt \<noteq> None then 1 else 0),
      (if income_statement stmt \<noteq> None then [] else [MissingIncomeStatement (period_ending stmt)]) @
      (if balance_sheet stmt \<noteq> None then [] else [MissingBalanceSheet (period_ending stmt)]) @
      (if cash_flow_statement stmt \<noteq> None then [] else [MissingCashFlowStatement (period_ending stmt)]))"

definition add_counts :: "nat \<times> nat \<times> issue list \<Rightarrow> nat \<times> nat \<times> issue list \<Rightarrow> nat \<times> nat \<times> issue list" where
  "add_counts a b = (fst a + fst b, fst (snd a) + fst (snd b), snd (snd a) @ snd (snd b))"

definition completeness_statements :: "FinancialStatement list \<Rightarrow> date \<Rightarrow> nat \<times> nat \<times> issue list" where
  "completeness_statements stmts today =
     (if stmts \<noteq> [] then
        (let recent_statements = filter (\<lambda>stmt. period_ending stmt \<ge> today - 730) stmts;
             coverage =
               (if length recent_statements \<ge> 2 then (2, 2, [])
                else if length recent_statements \<ge> 1 then (2, 1, [LimitedStatements])
                else (2, 0, [NoRecentStatements]))
         in foldl add_counts coverage (map statement_components (take 2 recent_statements)))
      else (8, 0, [NoFinancialStatements]))"

definition completeness_counts :: "StockData \<Rightarrow> date \<Rightarrow> nat \<times> nat \<times> issue list" where
  "completeness_counts sd today =
     foldl add_counts (0, 0, [])
       [completeness_company (company_info sd),
        completeness_price (current_price sd),
        completeness_historical (historical_prices sd),
        completeness_statements (financial_statements sd) today]"

definition assess_completeness :: "StockData \<Rightarrow> date \<Rightarrow> rat \<times> issue list" where
  "assess_completeness sd today =
     (let c = completeness_counts sd today;
          total_fields = fst c;
          completed_fields = fst (snd c)
      in ((if total_fields > 0 then of_nat completed_fields / of_nat total_fields * 100 else 0),
          snd (snd c)))"

subsection \<open>Freshness\<close>

definition freshness_current :: "StockPrice option \<Rightarrow> date \<Rightarrow> rat \<times> issue list" where
  "freshness_current op today =
     (case op of
        Some p \<Rightarrow>
          (let price_age_days = today - price_date p in
           if price_age_days = 0 then (100, [])
           else if price_age_days \<le> 1 then (90, [])
           else if price_age_days \<le> 3 then (70, [])
           else if price_age_days \<le> 7 then (50, [])
           else (20, [CurrentPriceOld price_age_days]))
      | None \<Rightarrow> (0, [NoCurrentPriceAvailable]))"

text \<open>\<open>max(xs, key=...)\<close> is only asked for the key of the maximum, so the largest key is computed.\<close>

definition max_key :: "int list \<Rightarrow> int" where
  "max_key ks = foldl max (hd ks) (tl ks)"

definition freshness_historical :: "StockPrice list \<Rightarrow> date \<Rightarrow> rat \<times> issue list" where
  "freshness_historical hs today =
     (if hs \<noteq> [] then
        (let hist_age_days = today - max_key (map price_date hs) in
         if hist_age_days \<le> 1 then (100, [])
         else if hist_age_days \<le> 3 then (80, [])
         else if hist_age_days \<le> 7 then (60, [])
         else (30, [HistoricalOld hist_age_days]))
      else (0, []))"

definition freshness_statements :: "FinancialStatement list \<Rightarrow> date \<Rightarrow> rat \<times> issue list" where
  "freshness_statements stmts today =
     (if stmts \<noteq> [] then
        (let stmt_age_days = today - max_key (map period_ending stmts) in
         if stmt_age_days \<le> 90 then (100, [])
         else if stmt_age_days \<le> 180 then (80, [])
         else if stmt_age_days \<le> 365 then (60, [])
         else if stmt_age_days \<le> 730 then (40, [])
         else (20, [LatestStatementOld stmt_age_days]))
      else (0, []))"

text \<open>
  \<open>(now - last_updated).total_seconds() / 3600\<close>, with \<open>now = datetime.now()\<close> naive:
  the subtraction raises \<open>TypeError\<close> on an aware \<open>last_updated\<close>.
\<close>

definition data_age_hours :: "int \<Rightarrow> datetime \<Rightarrow> error + rat" where
  "data_age_hours now lu =
     (case lu of
        Naive t \<Rightarrow> Inr (of_int (now - t) / 1000000 / 3600)
      | Aware t \<Rightarrow> Inl TypeError)"

definition freshness_overall :: "rat \<Rightarrow> rat \<times> issue list" where
  "freshness_overall h =
     (if h \<le> 1 then (100, [])
      else if h \<le> 6 then (90, [])
      else if h \<le> 24 then (70, [])
      else if h \<le> 72 then (50, [])
      else (30, [DataLastUpdated h]))"

definition assess_freshness :: "StockData \<Rightarrow> date \<Rightarrow> int \<Rightarrow> rat \<times> issue list" where
  "assess_freshness sd today now =
     (let c = freshness_current (current_price sd) today;
          h = freshness_historical (historical_prices sd) today;
          s = freshness_statements (financial_statements sd) today
      in case data_age_hours now (last_updated sd) of
           Inl e \<Rightarrow> (0, snd c @ snd h @ snd s @ [FreshnessFailed e])
         | Inr hours \<Rightarrow>
             (let u = freshness_overall hours
              in (mean [fst c, fst h, fst s, fst u], snd c @ snd h @ snd s @ snd u)))"

subsection \<open>Accuracy\<close>

text \<open>
  \<open>_validate_price_data\<close>: the score starts at 100 and loses fixed penalties; issues are
  appended only when \<open>silent\<close> is false.
\<close>

definition ohlc_all_present :: "StockPrice \<Rightarrow> bool" where
  "ohlc_all_present p =
     (truthy (open_price p) \<and> truthy (high_price p) \<and> truthy (low_price p) \<and> close_price p \<noteq> 0)"

definition validate_price_data :: "StockPrice \<Rightarrow> bool \<Rightarrow> int \<times> issue list" where
  "validate_price_data p silent =
     (let missing_close = (close_price p = 0);
          open_bad = (ohlc_all_present p \<and>
                      \<not> (the (low_price p) \<le> the (open_price p) \<and> the (open_price p) \<le> the (high_price p)));
          close_bad = (ohlc_all_present p \<and>
                       \<not> (the (low_price p) \<le> close_price p \<and> close_price p \<le> the (high_price p)));
          unreasonable = (close_price p \<noteq> 0 \<and> (close_price p \<le> 0 \<or> close_price p > 100000));
          negative_volume = (case volume p of None \<Rightarrow> False | Some v \<Rightarrow> v < 0);
          score = 100 - (if missing_close then 30 else 0) - (if open_bad then 20 else 0)
                      - (if close_bad then 20 else 0) - (if unreasonable then 25 else 0)
                      - (if negative_volume then 15 else 0)
      in (max 0 score,
          if silent then []
          else (if missing_close then [MissingClosePrice (price_date p)] else []) @
               (if open_bad then [OpenNotBetween (price_date p)] else []) @
               (if close_bad then [CloseNotBetween (price_date p)] else []) @
               (if unreasonable then [UnreasonableClose (price_date p) (close_price p)] else []) @
               (if negative_volume then [NegativeVolume (price_date p)] else [])))"

definition balance_sheet_off :: "BalanceSheet \<Rightarrow> bool" where
  "balance_sheet_off b =
     (truthy (total_assets b) \<and> truthy (total_liabilities b) \<and> truthy (total_equity b) \<and>
      (let assets = the (total_assets b);
           liab_equity = the (total_liabilities b) + the (total_equity b)
       in \<bar>assets - liab_equity\<bar> / assets > 5 / 100))"

text \<open>\<open>_validate_financial_statement\<close> is only ever called with \<open>silent=True\<close>, so it appends nothing.\<close>

definition validate_financial_statement :: "FinancialStatement \<Rightarrow> int" where
  "validate_financial_statement stmt =
     (if income_statement stmt = None \<and> balance_sheet stmt = None \<and> cash_flow_statement stmt = None
      then 0
      else
        (let negative_revenue =
               (case income_statement stmt of
                  None \<Rightarrow> False
                | Some inc \<Rightarrow> truthy (revenue inc) \<and> the (revenue inc) < 0);
             off_balance =
               (case balance_sheet stmt of None \<Rightarrow> False | Some b \<Rightarrow> balance_sheet_off b);
             score = 100 - (if negative_revenue then 20 else 0) - (if off_balance then 30 else 0)
         in max 0 score))"

definition validate_company_info :: "CompanyInfo \<Rightarrow> int \<times> issue list" where
  "validate_company_info ci =
     (let no_name = (company_name ci = []);
          bad_cap = (truthy (market_cap ci) \<and> the (market_cap ci) \<le> 0);
          bad_pe = (truthy (trailing_pe ci) \<and> (the (trailing_pe ci) \<le> 0 \<or> the (trailing_pe ci) > 1000));
          bad_beta = (truthy (beta ci) \<and> \<bar>the (beta ci)\<bar> > 5);
          score = 100 - (if no_name then 30 else 0) - (if bad_cap then 20 else 0)
                      - (if bad_pe then 15 else 0) - (if bad_beta then 10 else 0)
      in (max 0 score,
          (if no_name then [MissingCompanyName] else []) @
          (if bad_cap then [InvalidMarketCap] else []) @
          (if bad_pe then [UnreasonablePE (the (trailing_pe ci))] else []) @
          (if bad_beta then [ExtremeBeta (the (beta ci))] else [])))"

text \<open>
  The historical-price component of \<open>_assess_accuracy\<close>. The loop runs over
  \<open>historical_prices[:30]\<close> and counts the points whose validation score is truthy
  (non-zero); the divisor \<open>total_prices\<close> is the length of the whole list.
\<close>

definition valid_prices :: "StockPrice list \<Rightarrow> nat" where
  "valid_prices hs = length (filter (\<lambda>p. fst (validate_price_data p True) \<noteq> 0) (take 30 hs))"

definition price_accuracy :: "StockPrice list \<Rightarrow> rat" where
  "price_accuracy hs =
     (let total_prices = length hs
      in if total_prices > 0 then of_nat (valid_prices hs) / of_nat total_prices * 100 else 0)"

definition accuracy_current :: "StockPrice option \<Rightarrow> rat list \<times> issue list" where
  "accuracy_current op =
     (case op of
        Some p \<Rightarrow> (let r = validate_price_data p False in ([of_int (fst r)], snd r))
      | None \<Rightarrow> ([], []))"

definition accuracy_historical :: "StockPrice list \<Rightarrow> rat list \<times> issue list" where
  "accuracy_historical hs =
     (if hs \<noteq> [] then
        ([price_accuracy hs],
         if price_accuracy hs < 90 then [HistoricalValidationIssues (valid_prices hs) (length hs)] else [])
      else ([], []))"

definition valid_statements :: "FinancialStatement list \<Rightarrow> nat" where
  "valid_statements stmts = length (filter (\<lambda>s. validate_financial_statement s \<noteq> 0) stmts)"

definition stmt_accuracy :: "FinancialStatement list \<Rightarrow> rat" where
  "stmt_accuracy stmts =
     (let total_statements = length stmts
      in if total_statements > 0 then of_nat (valid_statements stmts) / of_nat total_statements * 100
         else 0)"

definition accuracy_statements :: "FinancialStatement list \<Rightarrow> rat list \<times> issue list" where
  "accuracy_statements stmts =
     (if stmts \<noteq> [] then
        ([stmt_accuracy stmts],
         if stmt_accuracy stmts < 90
         then [StatementValidationIssues (valid_statements stmts) (length stmts)] else [])
      else ([], []))"

definition accuracy_company :: "CompanyInfo option \<Rightarrow> rat list \<times> issue list" where
  "accuracy_company oci =
     (case oci of
        Some ci \<Rightarrow> (let r = validate_company_info ci in ([of_int (fst r)], snd r))
      | None \<Rightarrow> ([], []))"

definition accuracy_checks :: "StockData \<Rightarrow> rat list" where
  "accuracy_checks sd =
     fst (accuracy_current (current_price sd)) @
     fst (accuracy_historical (historical_prices sd)) @
     fst (accuracy_statements (financial_statements sd)) @
     fst (accuracy_company (company_info sd))"

definition assess_accuracy :: "StockData \<Rightarrow> rat \<times> issue list" where
  "assess_accuracy sd =
     ((if accuracy_checks sd \<noteq> [] then mean (accuracy_checks sd) else 0),
      snd (accuracy_current (current_price sd)) @
      snd (accuracy_historical (historical_prices sd)) @
      snd (accuracy_statements (financial_statements sd)) @
      snd (accuracy_company (company_info sd)))"

subsection \<open>Consistency\<close>

definition collected_symbols :: "StockData \<Rightarrow> string set" where
  "collected_symbols sd =
     (case company_info sd of None \<Rightarrow> {} | Some ci \<Rightarrow> {company_symbol ci}) \<union>
     (case current_price sd of None \<Rightarrow> {} | Some p \<Rightarrow> {price_symbol p}) \<union>
     set (map price_symbol (take 5 (historical_prices sd))) \<union>
     set (map stmt_symbol (take 3 (financial_statements sd)))"

definition symbol_check :: "StockData \<Rightarrow> rat list \<times> issue list" where
  "symbol_check sd =
     (if card (collected_symbols sd) = 1 then ([100], [])
      else ([50], [SymbolInconsistency (collected_symbols sd)]))"

definition count_gaps :: "int list \<Rightarrow> nat" where
  "count_gaps dates =
     length (filter (\<lambda>i. dates ! i - dates ! (i - 1) > 3) [1 ..< min (length dates) 30])"

definition date_gap_check :: "StockPrice list \<Rightarrow> rat list \<times> issue list" where
  "date_gap_check hs =
     (if length hs > 1 then
        (let gaps = count_gaps (sort (map price_date hs)) in
         if gaps = 0 then ([100], [])
         else if gaps \<le> 2 then ([80], [])
         else ([60], [DateGaps gaps]))
      else ([], []))"

definition intervals :: "int list \<Rightarrow> int list" where
  "intervals stmt_dates = map (\<lambda>i. stmt_dates ! i - stmt_dates ! (i - 1)) [1 ..< length stmt_dates]"

definition interval_score :: "rat \<Rightarrow> rat list \<times> issue list" where
  "interval_score avg_interval =
     (if 80 \<le> avg_interval \<and> avg_interval \<le> 100 then ([100], [])
      else if 350 \<le> avg_interval \<and> avg_interval \<le> 380 then ([100], [])
      else if 160 \<le> avg_interval \<and> avg_interval \<le> 200 then ([90], [])
      else ([70], [IrregularIntervals avg_interval]))"

definition statement_interval_check :: "FinancialStatement list \<Rightarrow> rat list \<times> issue list" where
  "statement_interval_check stmts =
     (if length stmts > 1 then
        (let ivs = intervals (sort (map period_ending stmts)) in
         if ivs \<noteq> [] then interval_score (mean (map of_int ivs)) else ([], []))
      else ([], []))"

text \<open>
  The three-sigma test \<open>abs(price - mean) > 3 * stdev\<close> is decided on the squares, both sides
  being non-negative, so that no square root is needed: \<open>variance\<close> is the sample variance
  that \<open>statistics.stdev\<close> takes the root of.
\<close>

definition variance :: "rat list \<Rightarrow> rat" where
  "variance xs = sum_list (map (\<lambda>x. (x - mean xs) ^ 2) xs) / of_nat (length xs - 1)"

definition outlier_check :: "StockPrice list \<Rightarrow> rat list \<times> issue list" where
  "outlier_check hs =
     (if length hs > 10 then
        (let prices = filter (\<lambda>c. c \<noteq> 0) (map close_price (take 30 hs)) in
         if length prices > 5 then
           (let outliers = length (filter (\<lambda>price. (price - mean prices) ^ 2 > 9 * variance prices) prices);
                outlier_ratio = of_nat outliers / of_nat (length prices)
            in if outlier_ratio \<le> 5 / 100 then ([100], [])
               else if outlier_ratio \<le> 10 / 100 then ([80], [])
               else ([60], [PriceOutliers outliers (length prices) outlier_ratio]))
         else ([], []))
      else ([], []))"

definition consistency_checks :: "StockData \<Rightarrow> rat list" where
  "consistency_checks sd =
     fst (symbol_check sd) @
     fst (date_gap_check (historical_prices sd)) @
     fst (statement_interval_check (financial_statements sd)) @
     fst (outlier_check (historical_prices sd))"

definition assess_consistency :: "StockData \<Rightarrow> rat \<times> issue list" where
  "assess_consistency sd =
     ((if consistency_checks sd \<noteq> [] then mean (consistency_checks sd) else 0),
      snd (symbol_check sd) @
      snd (date_gap_check (historical_prices sd)) @
      snd (statement_interval_check (financial_statements sd)) @
      snd (outlier_check (historical_prices sd)))"

subsection \<open>The overall assessment and the grade\<close>

text \<open>Python's \<open>round(x, 2)\<close>: to the nearest hundredth, ties to the even neighbour.\<close>

definition round_half_even :: "rat \<Rightarrow> int" where
  "round_half_even q =
     (let f = \<lfloor>q\<rfloor>; d = q - of_int f
      in if d < 1 / 2 then f else if d > 1 / 2 then f + 1 else if even f then f else f + 1)"

definition round2 :: "rat \<Rightarrow> rat" where
  "round2 x = of_int (round_half_even (x * 100)) / 100"

definition weighted_score :: "rat \<Rightarrow> rat \<Rightarrow> rat \<Rightarrow> rat \<Rightarrow> rat" where
  "weighted_score completeness freshness accuracy consistency =
     completeness * (4 / 10) + freshness * (3 / 10) + accuracy * (2 / 10) + consistency * (1 / 10)"

text \<open>
  The body of the \<open>try\<close> block: the constructor of \<open>DataQualityMetrics\<close> runs
  \<open>validate_score_range\<close> on the four stored scores and raises \<open>ValueError\<close> when one
  is outside [0,100].
\<close>

definition assess_body :: "StockData \<Rightarrow> DataSource \<Rightarrow> date \<Rightarrow> int \<Rightarrow> error + DataQualityMetrics" where
  "assess_body sd src today now =
     (let c = assess_completeness sd today;
          f = assess_freshness sd today now;
          a = assess_accuracy sd;
          k = assess_consistency sd;
          q = weighted_score (fst c) (fst f) (fst a) (fst k);
          m = \<lparr>dq_symbol = symbol sd, dq_data_source = src,
               quality_score = round2 q,
               completeness_score = round2 (fst c),
               freshness_score = round2 (fst f),
               accuracy_score = round2 (fst a),
               issues = snd c @ snd f @ snd a @ snd k\<rparr>
      in if validate_score_range (quality_score m) \<and> validate_score_range (completeness_score m) \<and>
            validate_score_range (freshness_score m) \<and> validate_score_range (accuracy_score m)
         then Inr m else Inl ValueError)"

definition assess_stock_data_quality :: "StockData \<Rightarrow> DataSource \<Rightarrow> date \<Rightarrow> int \<Rightarrow> DataQualityMetrics" where
  "assess_stock_data_quality sd src today now =
     (case assess_body sd src today now of
        Inr m \<Rightarrow> m
      | Inl e \<Rightarrow> \<lparr>dq_symbol = symbol sd, dq_data_source = src,
                  quality_score = 0, completeness_score = 0, freshness_score = 0,
                  accuracy_score = 0, issues = [AssessmentFailed e]\<rparr>)"

datatype grade = A | B | C | D | F

definition get_quality_grade :: "rat \<Rightarrow> grade" where
  "get_quality_grade score =
     (if score \<ge> 90 then A
      else if score \<ge> 75 then B
      else if score \<ge> 60 then C
      else if score \<ge> 40 then D
      else F)"

text \<open>The rank of a letter grade, \<open>A\<close> highest.\<close>

fun grade_rank :: "grade \<Rightarrow> nat" where
  "grade_rank A = 4"
| "grade_rank B = 3"
| "grade_rank C = 2"
| "grade_rank D = 1"
| "grade_rank F = 0"

section \<open>Cache payload encoding (services/cache\_service.py)\<close>

text \<open>
  Values built from JSON-representable Python types. A \<open>dict\<close> keeps its insertion order, so
  it is an association list. Byte strings are lists of \<open>char\<close> (bytes).
\<close>

datatype json =
    JNull
  | JBool bool
  | JNumber rat
  | JString string
  | JArray "json list"
  | JObject "(string \<times> json) list"

type_synonym bytes = string

text \<open>
  \<open>json\<close>, \<open>zlib\<close> and \<open>pickle\<close> are library modules, not code of this repository: the
  functions the cache service calls are parameters of the model. A call that raises returns
  \<open>Inl\<close>.
\<close>

record codec =
  json_dumps :: "json \<Rightarrow> error + bytes"
  json_loads :: "bytes \<Rightarrow> error + json"
  zlib_compress :: "bytes \<Rightarrow> bytes"
  zlib_decompress :: "bytes \<Rightarrow> error + bytes"
  pickle_dumps :: "json \<Rightarrow> bytes"
  pickle_loads :: "bytes \<Rightarrow> error + json"

definition COMPRESSED :: bytes where
  "COMPRESSED = ''COMPRESSED:''"

definition startswith :: "bytes \<Rightarrow> bytes \<Rightarrow> bool" where
  "startswith data pre = (take (length pre) data = pre)"

definition serialize :: "codec \<Rightarrow> nat \<Rightarrow> json \<Rightarrow> bytes" where
  "serialize K compression_threshold v =
     (case json_dumps K v of
        Inr json_data \<Rightarrow>
          (if length json_data > compression_threshold
           then COMPRESSED @ zlib_compress K json_data
           else json_data)
      | Inl e \<Rightarrow> pickle_dumps K v)"

definition deserialize :: "codec \<Rightarrow> bytes \<Rightarrow> error + json" where
  "deserialize K data =
     (if startswith data COMPRESSED then
        (case zlib_decompress K (drop 11 data) of
           Inr json_data \<Rightarrow> json_loads K json_data
         | Inl e \<Rightarrow> Inl e)
      else
        (case json_loads K data of
           Inr v \<Rightarrow> Inr v
         | Inl e \<Rightarrow>
             (if e = JSONDecodeError \<or> e = UnicodeDecodeError then pickle_loads K data else Inl e)))"

section \<open>Orchestrator (services/data\_service.py)\<close>

subsection \<open>Rate limiter\<close>

type_synonym rate_limits = "DataSource \<Rightarrow> APIRateLimit option"

definition hours :: "int \<Rightarrow> int" where
  "hours n = n * 3600 * 1000000"

definition days :: "int \<Rightarrow> int" where
  "days n = n * 24 * 3600 * 1000000"

text \<open>\<open>datetime.now() > reset_time\<close>: the left side is naive, so an aware right side raises.\<close>

definition now_after :: "int \<Rightarrow> datetime \<Rightarrow> error + bool" where
  "now_after now t = (case t of Naive u \<Rightarrow> Inr (now > u) | Aware u \<Rightarrow> Inl TypeError)"

text \<open>
  The \<open>try\<close> block of \<open>_check_rate_limit\<close>. The clock is read once per call: the two
  \<open>datetime.now()\<close> of the source are the same instant \<open>now\<close>.
\<close>

definition check_rate_limit_body :: "int \<Rightarrow> rate_limits \<Rightarrow> DataSource \<Rightarrow> error + (bool \<times> rate_limits)" where
  "check_rate_limit_body now rls source =
     (case rls source of
        None \<Rightarrow> Inr (True, rls)
      | Some rate_limit \<Rightarrow>
          (case now_after now (reset_time rate_limit) of
             Inl e \<Rightarrow> Inl e
           | Inr expired \<Rightarrow>
               (let rl = (if expired
                          then rate_limit\<lparr>requests_made := 0,
                                          reset_time := Naive (now + (if source = ALPHA_VANTAGE
                                                                      then days 1 else hours 1))\<rparr>
                          else rate_limit)
                in Inr (\<not> is_limit_exceeded rl, rls(source \<mapsto> rl)))))"

definition check_rate_limit :: "int \<Rightarrow> rate_limits \<Rightarrow> DataSource \<Rightarrow> bool \<times> rate_limits" where
  "check_rate_limit now rls source =
     (case check_rate_limit_body now rls source of
        Inr r \<Rightarrow> r
      | Inl e \<Rightarrow> (True, rls))"

definition update_rate_limit :: "rate_limits \<Rightarrow> DataSource \<Rightarrow> rate_limits" where
  "update_rate_limit rls source =
     (case rls source of
        None \<Rightarrow> rls
      | Some rate_limit \<Rightarrow> rls(source \<mapsto> rate_limit\<lparr>requests_made := requests_made rate_limit + 1\<rparr>))"

text \<open>The budgets \<open>__init__\<close> configures, created at the instant \<open>now\<close>.\<close>

definition initial_rate_limits :: "int \<Rightarrow> rate_limits" where
  "initial_rate_limits now =
     (Map.empty
        (YAHOO_FINANCE \<mapsto> \<lparr>api_name = ''yahoo_finance'', endpoint = ''general'', requests_made = 0,
                            requests_limit = 2000, reset_time = Naive (now + hours 1)\<rparr>))
        (ALPHA_VANTAGE \<mapsto> \<lparr>api_name = ''alpha_vantage'', endpoint = ''general'', requests_made = 0,
                            requests_limit = 500, reset_time = Naive (now + days 1)\<rparr>)"

subsection \<open>Cache lifetime\<close>

text \<open>
  \<open>float(d)\<close> for a \<open>Decimal\<close> \<open>d\<close>: the double nearest to \<open>d\<close>, ties to the even
  mantissa. A double has 53 significant bits, so a value with binary exponent \<open>e\<close>
  (\<open>2^e \<le> |d| < 2^(e+1)\<close>) is rounded to a multiple of \<open>2^(e-52)\<close>. Overflow and
  subnormal numbers are not modelled.
\<close>

definition float_exponent :: "rat \<Rightarrow> int" where
  "float_exponent x = (if x \<ge> 1 then bitlen \<lfloor>x\<rfloor> - 1 else - bitlen (\<lceil>1 / x\<rceil> - 1))"

definition float_of_decimal :: "rat \<Rightarrow> rat" where
  "float_of_decimal d =
     (if d = 0 then 0
      else (let e = float_exponent \<bar>d\<bar>;
                ulp = (if e \<ge> 52 then 2 ^ nat (e - 52) else 1 / 2 ^ nat (52 - e))
            in sgn d * of_int (round_half_even (\<bar>d\<bar> / ulp)) * ulp))"

definition determine_cache_ttl :: "StockData \<Rightarrow> int" where
  "determine_cache_ttl stock_data =
     (let base_ttl = 900 in
      case data_quality stock_data of
        Some q \<Rightarrow>
          (let score = float_of_decimal (quality_score q) in
           if score \<ge> 90 then base_ttl * 2
           else if score \<ge> 75 then base_ttl
           else if score \<ge> 60 then base_ttl div 2
           else base_ttl div 4)
      | None \<Rightarrow> base_ttl)"

subsection \<open>Single lookup\<close>

text \<open>
  What a cache entry reads back as: a JSON value that was in the store before, or the
  JSON image of a record this service wrote (with the lifetime it was written with). The
  image of a record is a non-empty \<open>dict\<close>, hence truthy.
\<close>

datatype cached = CachedJson json | CachedRecord StockData int

fun json_truthy :: "json \<Rightarrow> bool" where
  "json_truthy JNull = False"
| "json_truthy (JBool b) = b"
| "json_truthy (JNumber n) = (n \<noteq> 0)"
| "json_truthy (JString s) = (s \<noteq> [])"
| "json_truthy (JArray xs) = (xs \<noteq> [])"
| "json_truthy (JObject kvs) = (kvs \<noteq> [])"

fun cached_truthy :: "cached \<Rightarrow> bool" where
  "cached_truthy (CachedJson j) = json_truthy j"
| "cached_truthy (CachedRecord sd ttl) = True"

text \<open>What \<open>get_stock_data\<close> hands back: the cached value as it is, or a freshly built record.\<close>

datatype fetched = FromCache cached | FromSource StockData

record metrics =
  m_requests_made :: nat
  m_cache_hits :: nat
  m_cache_misses :: nat
  m_api_errors :: nat
  m_quality_assessments :: nat

text \<open>
  The mutable state of a \<open>DataService\<close>: the two switches, the rate budgets, the counters,
  and the content of the cache under the \<open>stock_data\<close> namespace. Expiry of cache entries
  and failures of the cache backend are not modelled.
\<close>

record DataService =
  enable_caching :: bool
  enable_quality_assessment :: bool
  rate_limits :: rate_limits
  service_metrics :: metrics
  cache_store :: "string \<Rightarrow> cached option"

text \<open>
  The collaborators of one call: the two provider clients (a call that raises is \<open>Inl\<close>,
  one that finds nothing is \<open>Inr None\<close>) and the clock.
\<close>

record env =
  yahoo_get_stock_data :: "string \<Rightarrow> error + StockData option"
  av_get_comprehensive_data :: "string \<Rightarrow> error + StockData option"
  clock_now :: int
  clock_today :: date

definition data_source_priority :: "DataSource list" where
  "data_source_priority = [YAHOO_FINANCE, ALPHA_VANTAGE]"

text \<open>\<open>str.upper()\<close> on ASCII letters.\<close>

definition upper_char :: "char \<Rightarrow> char" where
  "upper_char c =
     (if 97 \<le> (of_char c :: nat) \<and> (of_char c :: nat) \<le> 122 then char_of (of_char c - 32 :: nat) else c)"

definition upper :: "string \<Rightarrow> string" where
  "upper s = map upper_char s"

text \<open>
  \<open>_get_data_from_yahoo\<close> and \<open>_get_data_from_alpha_vantage\<close>: the budget is charged
  before the client is called, and an exception of the client becomes \<open>None\<close>.
\<close>

definition get_data_from_yahoo :: "env \<Rightarrow> rate_limits \<Rightarrow> string \<Rightarrow> StockData option \<times> rate_limits" where
  "get_data_from_yahoo E rls ticker =
     (case yahoo_get_stock_data E ticker of
        Inr r \<Rightarrow> (r, update_rate_limit rls YAHOO_FINANCE)
      | Inl e \<Rightarrow> (None, update_rate_limit rls YAHOO_FINANCE))"

definition get_data_from_alpha_vantage :: "env \<Rightarrow> rate_limits \<Rightarrow> string \<Rightarrow> StockData option \<times> rate_limits" where
  "get_data_from_alpha_vantage E rls ticker =
     (case av_get_comprehensive_data E ticker of
        Inr r \<Rightarrow> (r, update_rate_limit rls ALPHA_VANTAGE)
      | Inl e \<Rightarrow> (None, update_rate_limit rls ALPHA_VANTAGE))"

text \<open>
  The body of the \<open>for source in sources_to_try\<close> loop for one source that passed the
  rate-limit check. For a source other than the two providers no branch assigns
  \<open>stock_data\<close>, which is still \<open>None\<close>. Both helpers catch every exception, so the
  \<open>except\<close> clause of the loop body is never entered.
\<close>

definition fetch_from :: "env \<Rightarrow> rate_limits \<Rightarrow> string \<Rightarrow> DataSource \<Rightarrow> StockData option \<times> rate_limits" where
  "fetch_from E rls ticker source =
     (if source = YAHOO_FINANCE then get_data_from_yahoo E rls ticker
      else if source = ALPHA_VANTAGE then get_data_from_alpha_vantage E rls ticker
      else (None, rls))"

text \<open>
  The loop: a denied source is skipped, a source without data is passed over, the first
  record ends the loop. The result carries the value of the loop variable \<open>source\<close> at the
  \<open>break\<close>.
\<close>

fun try_sources :: "env \<Rightarrow> string \<Rightarrow> DataSource list \<Rightarrow> rate_limits \<Rightarrow> (StockData \<times> DataSource) option \<times> rate_limits" where
  "try_sources E ticker [] rls = (None, rls)"
| "try_sources E ticker (source # rest) rls =
     (let chk = check_rate_limit (clock_now E) rls source in
      if \<not> fst chk then try_sources E ticker rest (snd chk)
      else
        (let got = fetch_from E (snd chk) ticker source in
         case fst got of
           Some stock_data \<Rightarrow> (Some (stock_data, source), snd got)
         | None \<Rightarrow> try_sources E ticker rest (snd got)))"

definition sources_to_try :: "DataSource option \<Rightarrow> DataSource list" where
  "sources_to_try preferred_source =
     (case preferred_source of Some p \<Rightarrow> [p] | None \<Rightarrow> data_source_priority)"

definition cache_hit :: "DataService \<Rightarrow> string \<Rightarrow> bool \<Rightarrow> cached option" where
  "cache_hit S ticker force_refresh =
     (if \<not> force_refresh \<and> enable_caching S then
        (case cache_store S ticker of
           Some c \<Rightarrow> (if cached_truthy c then Some c else None)
         | None \<Rightarrow> None)
      else None)"

definition bump_hits :: "metrics \<Rightarrow> metrics" where
  "bump_hits m = m\<lparr>m_cache_hits := m_cache_hits m + 1\<rparr>"

definition bump_misses :: "metrics \<Rightarrow> metrics" where
  "bump_misses m = m\<lparr>m_cache_misses := m_cache_misses m + 1\<rparr>"

definition bump_assessments :: "metrics \<Rightarrow> metrics" where
  "bump_assessments m = m\<lparr>m_quality_assessments := m_quality_assessments m + 1\<rparr>"

definition bump_requests :: "metrics \<Rightarrow> metrics" where
  "bump_requests m = m\<lparr>m_requests_made := m_requests_made m + 1\<rparr>"

text \<open>Steps 5 to 7: attach the quality report, write the cache, count the request.\<close>

definition attach_quality :: "env \<Rightarrow> DataService \<Rightarrow> StockData \<Rightarrow> DataSource \<Rightarrow> StockData" where
  "attach_quality E S stock_data source =
     (if enable_quality_assessment S
      then stock_data\<lparr>data_quality :=
             Some (assess_stock_data_quality stock_data source (clock_today E) (clock_now E))\<rparr>
      else stock_data)"

definition finish_lookup :: "env \<Rightarrow> DataService \<Rightarrow> string \<Rightarrow> StockData \<Rightarrow> DataSource \<Rightarrow> StockData \<times> DataService" where
  "finish_lookup E S ticker stock_data source =
     (let sd = attach_quality E S stock_data source;
          S1 = (if enable_quality_assessment S
                then S\<lparr>service_metrics := bump_assessments (service_metrics S)\<rparr> else S);
          S2 = (if enable_caching S1
                then S1\<lparr>cache_store := (cache_store S1)(ticker \<mapsto> CachedRecord sd (determine_cache_ttl sd))\<rparr>
                else S1)
      in (sd, S2\<lparr>service_metrics := bump_requests (service_metrics S2)\<rparr>))"

definition get_stock_data :: "env \<Rightarrow> DataService \<Rightarrow> string \<Rightarrow> bool \<Rightarrow> DataSource option \<Rightarrow> fetched option \<times> DataService" where
  "get_stock_data E S symbol_arg force_refresh preferred_source =
     (let ticker = upper symbol_arg in
      case cache_hit S ticker force_refresh of
        Some c \<Rightarrow> (Some (FromCache c), S\<lparr>service_metrics := bump_hits (service_metrics S)\<rparr>)
      | None \<Rightarrow>
          (let S1 = (if \<not> force_refresh \<and> enable_caching S
                     then S\<lparr>service_metrics := bump_misses (service_metrics S)\<rparr> else S);
               r = try_sources E ticker (sources_to_try preferred_source) (rate_limits S1);
               S2 = S1\<lparr>rate_limits := snd r\<rparr>
           in case fst r of
                None \<Rightarrow> (None, S2)
              | Some (stock_data, source) \<Rightarrow>
                  (let fin = finish_lookup E S2 ticker stock_data source
                   in (Some (FromSource (fst fin)), snd fin))))"

subsection \<open>Batch lookup\<close>




text \<open>The loop over \<open>results\<close>: an exception is logged and skipped, a pair is stored.\<close>

fun process_results :: "(string \<Rightarrow> fetched option option) \<Rightarrow> (error + string \<times> fetched option) list \<Rightarrow> (string \<Rightarrow> fetched option option)" where
  "process_results stock_data_map [] = stock_data_map"
| "process_results stock_data_map (Inl e # rest) = process_results stock_data_map rest"
| "process_results stock_data_map (Inr (ticker, d) # rest) = process_results (stock_data_map(ticker \<mapsto> d)) rest"


section \<open>The fallback rule in the words of the specification\<close>

text \<open>
  What a source yields for a ticker: the record its adapter builds, and nothing when the
  adapter fails, finds nothing, or the source has no adapter.
\<close>

definition source_data :: "env \<Rightarrow> string \<Rightarrow> DataSource \<Rightarrow> StockData option" where
  "source_data E ticker source =
     (case source of
        YAHOO_FINANCE \<Rightarrow> (case yahoo_get_stock_data E ticker of Inr r \<Rightarrow> r | Inl e \<Rightarrow> None)
      | ALPHA_VANTAGE \<Rightarrow> (case av_get_comprehensive_data E ticker of Inr r \<Rightarrow> r | Inl e \<Rightarrow> None)
      | MANUAL \<Rightarrow> None)"

text \<open>
  The first candidate, in order, that the rate limiter (as it stands before the call)
  allows and that yields a record; with the record it yields.
\<close>

definition first_yielding :: "env \<Rightarrow> rate_limits \<Rightarrow> string \<Rightarrow> DataSource list \<Rightarrow> (StockData \<times> DataSource) option" where
  "first_yielding E rls ticker candidates =
     (case find (\<lambda>s. fst (check_rate_limit (clock_now E) rls s) \<and> source_data E ticker s \<noteq> None)
             candidates of
        None \<Rightarrow> None
      | Some s \<Rightarrow> Some (the (source_data E ticker s), s))"

section \<open>Example inputs\<close>

definition report :: "rat \<Rightarrow> DataQualityMetrics" where
  "report s = \<lparr>dq_symbol = ''AAPL'', dq_data_source = YAHOO_FINANCE, quality_score = s,
     completeness_score = s, freshness_score = s, accuracy_score = s, issues = []\<rparr>"

definition record_with :: "DataQualityMetrics option \<Rightarrow> StockData" where
  "record_with q = \<lparr>symbol = ''AAPL'', company_info = None, current_price = None,
     historical_prices = [], financial_statements = [], data_quality = q, last_updated = Naive 0\<rparr>"

definition aware_limits :: rate_limits where
  "aware_limits = Map.empty(YAHOO_FINANCE \<mapsto> \<lparr>api_name = ''yahoo_finance'', endpoint = ''general'',
      requests_made = 2000, requests_limit = 2000, reset_time = Aware 0\<rparr>)"

definition yahoo_budget :: APIRateLimit where
  "yahoo_budget = \<lparr>api_name = ''yahoo_finance'', endpoint = ''general'', requests_made = 0,
                            requests_limit = 2000, reset_time = Naive 3600000000\<rparr>"

definition good_price :: StockPrice where
  "good_price = \<lparr>price_symbol = ''AAPL'', price_date = 0, open_price = Some 10, high_price = Some 12,
     low_price = Some 9, close_price = 11, adjusted_close = None, volume = Some 1000\<rparr>"

definition stmt_at :: "date \<Rightarrow> FinancialStatement" where
  "stmt_at d = \<lparr>stmt_symbol = ''AAPL'', period_ending = d, period_type = ''Quarterly'',
     income_statement = None, balance_sheet = None, cash_flow_statement = None,
     stmt_data_source = YAHOO_FINANCE, stmt_last_updated = Naive 0\<rparr>"

definition statements_record :: "FinancialStatement list \<Rightarrow> StockData" where
  "statements_record stmts = \<lparr>symbol = ''AAPL'', company_info = None, current_price = None,
     historical_prices = [], financial_statements = stmts, data_quality = None, last_updated = Naive 0\<rparr>"

text \<open>A stand-in codec: strings in double quotes, "compression" by reversal.\<close>

definition toy_codec :: codec where
  "toy_codec = \<lparr>
     json_dumps = (\<lambda>v. case v of JString s \<Rightarrow> Inr (CHR 0x22 # s @ [CHR 0x22]) | _ \<Rightarrow> Inl TypeError),
     json_loads = (\<lambda>b. if 2 \<le> length b \<and> hd b = CHR 0x22 \<and> last b = CHR 0x22
                        then Inr (JString (butlast (tl b))) else Inl JSONDecodeError),
     zlib_compress = rev,
     zlib_decompress = (\<lambda>b. Inr (rev b)),
     pickle_dumps = (\<lambda>v. []),
     pickle_loads = (\<lambda>b. Inl OtherError)\<rparr>"

definition av_record :: StockData where
  "av_record = statements_record [stmt_at 0]"

definition example_env :: env where
  "example_env = \<lparr>
     yahoo_get_stock_data = (\<lambda>s. Inr (Some (record_with None))),
     av_get_comprehensive_data = (\<lambda>s. if s = ''AAPL'' then Inr (Some av_record) else Inr None),
     clock_now = 5,
     clock_today = 0\<rparr>"

definition yahoo_exhausted :: rate_limits where
  "yahoo_exhausted = (initial_rate_limits 0)(YAHOO_FINANCE \<mapsto> yahoo_budget\<lparr>requests_made := 2000\<rparr>)"

definition example_service :: DataService where
  "example_service = \<lparr>
     enable_caching = True,
     enable_quality_assessment = True,
     rate_limits = yahoo_exhausted,
     service_metrics = \<lparr>m_requests_made = 0, m_cache_hits = 0, m_cache_misses = 0,
                         m_api_errors = 0, m_quality_assessments = 0\<rparr>,
     cache_store = Map.empty\<rparr>"







section \<open>Verified properties\<close>

subsection \<open>Quality grade\<close>

text \<open>
  C9. \<open>get_quality_grade\<close> maps a score to a letter with boundaries exactly at 90, 75, 60
  and 40, and the mapping is monotone: a score at least as large gets a grade that ranks
  at least as high.
\<close>

theorem get_quality_grade_monotone:
  "(get_quality_grade x = A \<longleftrightarrow> 90 \<le> x) \<and>
   (get_quality_grade x = B \<longleftrightarrow> 75 \<le> x \<and> x < 90) \<and>
   (get_quality_grade x = C \<longleftrightarrow> 60 \<le> x \<and> x < 75) \<and>
   (get_quality_grade x = D \<longleftrightarrow> 40 \<le> x \<and> x < 60) \<and>
   (get_quality_grade x = F \<longleftrightarrow> x < 40) \<and>
   (y \<le> x \<longrightarrow> grade_rank (get_quality_grade y) \<le> grade_rank (get_quality_grade x))"
  by (simp add: get_quality_grade_def)

theorem get_quality_grade_monotone_witness:
  "(80::rat) \<le> 95 \<and> get_quality_grade 95 = A \<and> get_quality_grade 80 = B \<and>
   grade_rank (get_quality_grade 80) \<le> grade_rank (get_quality_grade 95)"
  using get_quality_grade_monotone [of 95 80] get_quality_grade_monotone [of 80 80] by simp

subsection \<open>Rate limiter\<close>

text \<open>
  C10. The rate-limit check fails open: for a source without a configured budget, and
  whenever the body of the check raises, \<open>_check_rate_limit\<close> returns \<open>True\<close> (and leaves
  the budgets as they are).
\<close>

theorem check_rate_limit_fail_open:
  "(rls source = None \<longrightarrow> check_rate_limit now rls source = (True, rls)) \<and>
   (\<forall>e. check_rate_limit_body now rls source = Inl e \<longrightarrow> check_rate_limit now rls source = (True, rls))"
  by (simp add: check_rate_limit_def check_rate_limit_body_def)

theorem check_rate_limit_fail_open_witness:
  "initial_rate_limits 0 MANUAL = None \<and>
   check_rate_limit 5 (initial_rate_limits 0) MANUAL = (True, initial_rate_limits 0) \<and>
   check_rate_limit_body 5 aware_limits YAHOO_FINANCE = Inl TypeError \<and>
   check_rate_limit 5 aware_limits YAHOO_FINANCE = (True, aware_limits)"
  using check_rate_limit_fail_open [of "initial_rate_limits 0" MANUAL 5]
        check_rate_limit_fail_open [of aware_limits YAHOO_FINANCE 5]
  by (simp add: initial_rate_limits_def aware_limits_def check_rate_limit_body_def now_after_def)

lemma update_rate_limit_funpow:
  "rls source = Some rl \<Longrightarrow>
   ((\<lambda>r. update_rate_limit r source) ^^ n) rls source = Some (rl\<lparr>requests_made := requests_made rl + int n\<rparr>)"
proof (induction n)
  case 0
  then show ?case by simp
next
  case (Suc n)
  then show ?case by (simp add: update_rate_limit_def add.assoc)
qed

text \<open>
  C4 (as amended). For a source with a configured budget whose window end \<open>reset_time\<close> is a
  naive time \<open>t\<close>: inside the window (\<open>now \<le> t\<close>) the check returns false once
  \<open>requests_made\<close> has reached the limit, in particular after \<open>requests_limit\<close> calls of
  \<open>_update_rate_limit\<close> from zero; past the window (\<open>t < now\<close>) the check resets the counter
  to 0, sets \<open>reset_time\<close> to the current time plus the period of the source (24 hours
  for Alpha Vantage, 1 hour otherwise), and returns true when the limit is positive.
\<close>

theorem check_rate_limit_window:
  assumes "rls source = Some rl" and "reset_time rl = Naive t"
  shows "(now \<le> t \<and> requests_limit rl \<le> requests_made rl \<longrightarrow>
            \<not> fst (check_rate_limit now rls source)) \<and>
         (now \<le> t \<and> requests_made rl = 0 \<and> 0 \<le> requests_limit rl \<longrightarrow>
            \<not> fst (check_rate_limit now
                     (((\<lambda>r. update_rate_limit r source) ^^ nat (requests_limit rl)) rls) source)) \<and>
         (t < now \<longrightarrow>
            snd (check_rate_limit now rls source) source =
              Some (rl\<lparr>requests_made := 0,
                       reset_time := Naive (now + (if source = ALPHA_VANTAGE then 86400000000 else 3600000000))\<rparr>) \<and>
            (0 < requests_limit rl \<longrightarrow> fst (check_rate_limit now rls source)))"
proof -
  have a: "now \<le> t \<and> requests_limit rl \<le> requests_made rl \<longrightarrow> \<not> fst (check_rate_limit now rls source)"
    using assms
    by (simp add: check_rate_limit_def check_rate_limit_body_def now_after_def is_limit_exceeded_def)
  have b: "now \<le> t \<and> requests_made rl = 0 \<and> 0 \<le> requests_limit rl \<longrightarrow>
            \<not> fst (check_rate_limit now
                     (((\<lambda>r. update_rate_limit r source) ^^ nat (requests_limit rl)) rls) source)"
    using assms update_rate_limit_funpow [where rls = rls and source = source and rl = rl
        and n = "nat (requests_limit rl)"]
    by (simp add: check_rate_limit_def check_rate_limit_body_def now_after_def is_limit_exceeded_def)
  have c: "t < now \<longrightarrow>
            snd (check_rate_limit now rls source) source =
              Some (rl\<lparr>requests_made := 0,
                       reset_time := Naive (now + (if source = ALPHA_VANTAGE then 86400000000 else 3600000000))\<rparr>) \<and>
            (0 < requests_limit rl \<longrightarrow> fst (check_rate_limit now rls source))"
    using assms
    by (simp add: check_rate_limit_def check_rate_limit_body_def now_after_def is_limit_exceeded_def
        hours_def days_def)
  from a b c show ?thesis by blast
qed

theorem check_rate_limit_window_witness:
  "initial_rate_limits 0 YAHOO_FINANCE = Some yahoo_budget \<and>
   \<not> fst (check_rate_limit 5 (((\<lambda>r. update_rate_limit r YAHOO_FINANCE) ^^ 2000) (initial_rate_limits 0)) YAHOO_FINANCE) \<and>
   snd (check_rate_limit 7200000000 (initial_rate_limits 0) YAHOO_FINANCE) YAHOO_FINANCE =
     Some (yahoo_budget\<lparr>requests_made := 0, reset_time := Naive 10800000000\<rparr>) \<and>
   fst (check_rate_limit 7200000000 (initial_rate_limits 0) YAHOO_FINANCE)"
proof -
  have h1: "initial_rate_limits 0 YAHOO_FINANCE = Some yahoo_budget"
    by (simp add: initial_rate_limits_def yahoo_budget_def hours_def)
  have h2: "reset_time yahoo_budget = Naive 3600000000"
    by (simp add: yahoo_budget_def)
  have l: "requests_limit yahoo_budget = 2000" "requests_made yahoo_budget = 0"
    by (simp_all add: yahoo_budget_def)
  show ?thesis
    using h1 h2 l
      check_rate_limit_window [where rls = "initial_rate_limits 0" and source = YAHOO_FINANCE
        and rl = yahoo_budget and t = 3600000000 and now = 5]
      check_rate_limit_window [where rls = "initial_rate_limits 0" and source = YAHOO_FINANCE
        and rl = yahoo_budget and t = 3600000000 and now = 7200000000]
    by simp
qed

text \<open>
  C4 as stated fails: the new \<open>reset_time\<close> is not the old one advanced by the period.
  With the budgets of a service created at time 0 and a check two hours later, the window
  of Yahoo Finance ended at one hour and the new one ends at three hours, not at two.
\<close>

theorem check_rate_limit_reset_counterexample:
  "reset_time (the (initial_rate_limits 0 YAHOO_FINANCE)) = Naive 3600000000 \<and>
   reset_time (the (snd (check_rate_limit 7200000000 (initial_rate_limits 0) YAHOO_FINANCE) YAHOO_FINANCE))
     = Naive 10800000000 \<and>
   reset_time (the (snd (check_rate_limit 7200000000 (initial_rate_limits 0) YAHOO_FINANCE) YAHOO_FINANCE))
     \<noteq> Naive (3600000000 + 3600000000)"
  by (simp add: initial_rate_limits_def check_rate_limit_def check_rate_limit_body_def now_after_def
      hours_def days_def Let_def)

subsection \<open>Accuracy of the historical prices\<close>

text \<open>
  C7. The claim is that the historical-price sub-score is the share of valid points among
  the first \<open>min(n,30)\<close>, so that points beyond the 30 examined do not lower it. The code
  counts the valid points among the first 30 but divides by the length of the whole
  list: for 60 points that all validate with the full score of 100, \<open>valid_prices\<close> is 30
  and the sub-score is 50, with a validation issue reported, where the claim gives 100.
\<close>

theorem price_accuracy_sixty_valid_points:
  "fst (validate_price_data good_price True) = 100 \<and>
   valid_prices (replicate 60 good_price) = 30 \<and>
   price_accuracy (replicate 60 good_price) = 50 \<and>
   accuracy_historical (replicate 60 good_price) = ([50], [HistoricalValidationIssues 30 60])"
proof -
  have v: "fst (validate_price_data good_price True) = 100"
    by (simp add: validate_price_data_def good_price_def ohlc_all_present_def truthy_def)
  have n: "valid_prices (replicate 60 good_price) = 30"
    by (simp add: valid_prices_def v)
  have p: "price_accuracy (replicate 60 good_price) = 50"
    by (simp add: price_accuracy_def n)
  show ?thesis
    by (simp add: v n p accuracy_historical_def)
qed

subsection \<open>Intervals between financial statements\<close>

lemma intervals_nonempty: "length ds > 1 \<Longrightarrow> intervals ds \<noteq> []"
  by (auto simp add: intervals_def)

text \<open>
  C8 (as amended). For a record with more than one financial statement, the interval
  check contributes 100 when the average gap between consecutive period-end dates is in
  the quarterly range (80 to 100 days) or the annual range (350 to 380 days), 90 and no
  issue when it is in the semi-annual range (160 to 200 days), and 70 with an issue entry
  for any other average gap; the contribution is one of the consistency checks.
\<close>

theorem statement_interval_check_scores:
  assumes "length (financial_statements sd) > 1"
  shows "(let avg = mean (map of_int (intervals (sort (map period_ending (financial_statements sd)))));
              chk = statement_interval_check (financial_statements sd)
          in ((80 \<le> avg \<and> avg \<le> 100) \<or> (350 \<le> avg \<and> avg \<le> 380) \<longrightarrow> chk = ([100], [])) \<and>
             (160 \<le> avg \<and> avg \<le> 200 \<longrightarrow> chk = ([90], [])) \<and>
             (\<not> (80 \<le> avg \<and> avg \<le> 100) \<and> \<not> (350 \<le> avg \<and> avg \<le> 380) \<and> \<not> (160 \<le> avg \<and> avg \<le> 200)
                \<longrightarrow> chk = ([70], [IrregularIntervals avg])) \<and>
             set (fst chk) \<subseteq> set (consistency_checks sd) \<and>
             set (snd chk) \<subseteq> set (snd (assess_consistency sd)))"
proof -
  have ne: "intervals (sort (map period_ending (financial_statements sd))) \<noteq> []"
    using assms by (simp add: intervals_nonempty)
  show ?thesis
    using assms ne
    by (auto simp add: Let_def statement_interval_check_def interval_score_def
        consistency_checks_def assess_consistency_def)
qed

theorem statement_interval_check_scores_witness:
  "length (financial_statements (statements_record [stmt_at 0, stmt_at 90, stmt_at 181])) > 1 \<and>
   statement_interval_check [stmt_at 0, stmt_at 90, stmt_at 181] = ([100], []) \<and>
   statement_interval_check [stmt_at 0, stmt_at 180] = ([90], []) \<and>
   statement_interval_check [stmt_at 0, stmt_at 30] = ([70], [IrregularIntervals 30])"
proof -
  have fs: "\<And>xs. financial_statements (statements_record xs) = xs"
    by (simp add: statements_record_def)
  have m1: "mean (map of_int (intervals (sort (map period_ending [stmt_at 0, stmt_at 90, stmt_at 181])))) = 181 / 2"
    by (simp add: intervals_def mean_def stmt_at_def upt_rec)
  have m2: "mean (map of_int (intervals (sort (map period_ending [stmt_at 0, stmt_at 180])))) = 180"
    by (simp add: intervals_def mean_def stmt_at_def)
  have m3: "mean (map of_int (intervals (sort (map period_ending [stmt_at 0, stmt_at 30])))) = 30"
    by (simp add: intervals_def mean_def stmt_at_def)
  have l1: "length (financial_statements (statements_record [stmt_at 0, stmt_at 90, stmt_at 181])) > 1"
    by (simp add: fs)
  have l2: "length (financial_statements (statements_record [stmt_at 0, stmt_at 180])) > 1"
    by (simp add: fs)
  have l3: "length (financial_statements (statements_record [stmt_at 0, stmt_at 30])) > 1"
    by (simp add: fs)
  have t1: "statement_interval_check [stmt_at 0, stmt_at 90, stmt_at 181] = ([100], [])"
    using statement_interval_check_scores [OF l1] unfolding Let_def fs m1 by simp
  have t2: "statement_interval_check [stmt_at 0, stmt_at 180] = ([90], [])"
    using statement_interval_check_scores [OF l2] unfolding Let_def fs m2 by simp
  have t3: "statement_interval_check [stmt_at 0, stmt_at 30] = ([70], [IrregularIntervals 30])"
    using statement_interval_check_scores [OF l3] unfolding Let_def fs m3 by simp
  from l1 t1 t2 t3 show ?thesis by blast
qed

text \<open>
  C8 as stated fails for the semi-annual range: two statements 180 days apart give an
  average gap of 180 days and the contribution 90, not 100.
\<close>

theorem statement_interval_semiannual_counterexample:
  "mean (map of_int (intervals (sort (map period_ending [stmt_at 0, stmt_at 180])))) = 180 \<and>
   statement_interval_check [stmt_at 0, stmt_at 180] = ([90], [])"
  by (simp add: statement_interval_check_def intervals_def mean_def interval_score_def stmt_at_def)

subsection \<open>Cache payload round trip\<close>

text \<open>
  C5. For a value \<open>v\<close> that the JSON encoder writes as \<open>b\<close> and the decoder reads back
  (the round trip of the \<open>json\<close> library on JSON-representable values), with \<open>zlib\<close>
  lossless on \<open>b\<close>, and \<open>b\<close> not starting with the marker (JSON text never starts with the
  letter C): \<open>_deserialize(_serialize(v))\<close> is \<open>v\<close>. A payload of at most 1024 bytes is
  stored as the raw JSON text; a larger one is compressed and prefixed with the marker
  \<open>COMPRESSED:\<close>, which \<open>_deserialize\<close> tests before it decompresses.
\<close>

theorem serialize_roundtrip:
  assumes "json_dumps K v = Inr b"
      and "json_loads K b = Inr v"
      and "zlib_decompress K (zlib_compress K b) = Inr b"
      and "\<not> startswith b COMPRESSED"
  shows "deserialize K (serialize K 1024 v) = Inr v \<and>
         (length b \<le> 1024 \<longrightarrow> serialize K 1024 v = b) \<and>
         (length b > 1024 \<longrightarrow> serialize K 1024 v = COMPRESSED @ zlib_compress K b \<and>
                               startswith (serialize K 1024 v) COMPRESSED)"
  using assms
  by (simp add: serialize_def deserialize_def startswith_def COMPRESSED_def)


theorem serialize_roundtrip_witness:
  "deserialize toy_codec (serialize toy_codec 1024 (JString (replicate 100 CHR ''a''))) =
     Inr (JString (replicate 100 CHR ''a'')) \<and>
   length (serialize toy_codec 1024 (JString (replicate 100 CHR ''a''))) = 102 \<and>
   deserialize toy_codec (serialize toy_codec 1024 (JString (replicate 5000 CHR ''a''))) =
     Inr (JString (replicate 5000 CHR ''a'')) \<and>
   startswith (serialize toy_codec 1024 (JString (replicate 5000 CHR ''a''))) COMPRESSED"
proof -
  have d: "\<And>n. json_dumps toy_codec (JString (replicate n CHR ''a'')) =
             Inr (CHR 0x22 # replicate n CHR ''a'' @ [CHR 0x22])"
    by (simp add: toy_codec_def)
  have l: "\<And>n. json_loads toy_codec (CHR 0x22 # replicate n CHR ''a'' @ [CHR 0x22]) =
             Inr (JString (replicate n CHR ''a''))"
    by (simp add: toy_codec_def butlast_append)
  have z: "\<And>b. zlib_decompress toy_codec (zlib_compress toy_codec b) = Inr b"
    by (simp add: toy_codec_def)
  have s: "\<And>n. \<not> startswith (CHR 0x22 # replicate n CHR ''a'' @ [CHR 0x22]) COMPRESSED"
    by (simp add: startswith_def COMPRESSED_def)
  have small: "length (CHR 0x22 # replicate 100 CHR ''a'' @ [CHR 0x22]) = 102" by simp
  have big: "length (CHR 0x22 # replicate 5000 CHR ''a'' @ [CHR 0x22]) > 1024" by simp
  note r1 = serialize_roundtrip [OF d l z s, of 100]
  note r2 = serialize_roundtrip [OF d l z s, of 5000]
  have c1: "deserialize toy_codec (serialize toy_codec 1024 (JString (replicate 100 CHR ''a''))) =
     Inr (JString (replicate 100 CHR ''a''))"
    using r1 by blast
  have e: "serialize toy_codec 1024 (JString (replicate 100 CHR ''a'')) =
     CHR 0x22 # replicate 100 CHR ''a'' @ [CHR 0x22]"
    using r1 small by simp
  have c2: "length (serialize toy_codec 1024 (JString (replicate 100 CHR ''a''))) = 102"
    unfolding e by simp
  have c3: "deserialize toy_codec (serialize toy_codec 1024 (JString (replicate 5000 CHR ''a''))) =
     Inr (JString (replicate 5000 CHR ''a''))"
    using r2 by blast
  have c4: "startswith (serialize toy_codec 1024 (JString (replicate 5000 CHR ''a''))) COMPRESSED"
    using r2 big by blast
  from c1 c2 c3 c4 show ?thesis by blast
qed

subsection \<open>Bounds of the quality scores\<close>

lemma sum_list_upper: "\<forall>x\<in>set xs. x \<le> (100::rat) \<Longrightarrow> sum_list xs \<le> 100 * of_nat (length xs)"
  by (induction xs) (auto simp add: algebra_simps)

lemma sum_list_lower: "\<forall>x\<in>set xs. (0::rat) \<le> x \<Longrightarrow> 0 \<le> sum_list xs"
  by (induction xs) auto

lemma mean_bounds:
  assumes "xs \<noteq> []" and "\<forall>x\<in>set xs. 0 \<le> x \<and> x \<le> 100"
  shows "0 \<le> mean xs \<and> mean xs \<le> 100"
proof -
  have n: "(0::rat) < of_nat (length xs)" using assms(1) by simp
  have u: "sum_list xs \<le> 100 * of_nat (length xs)" using assms(2) by (simp add: sum_list_upper)
  have l: "0 \<le> sum_list xs" using assms(2) by (simp add: sum_list_lower)
  have "mean xs \<le> 100" unfolding mean_def using n u by (simp add: pos_divide_le_eq)
  moreover have "0 \<le> mean xs" unfolding mean_def using n l by simp
  ultimately show ?thesis by simp
qed

lemma ratio_bounds:
  assumes "c \<le> t"
  shows "0 \<le> (if t > 0 then of_nat c / of_nat t * 100 else (0::rat)) \<and>
         (if t > 0 then of_nat c / of_nat t * 100 else (0::rat)) \<le> 100"
proof (cases "t > 0")
  case True
  have "(of_nat c :: rat) * 100 \<le> of_nat t * 100" using assms by simp
  then have "(of_nat c :: rat) * 100 / of_nat t \<le> 100"
    using True by (simp add: pos_divide_le_eq mult.commute)
  then show ?thesis using True by simp
next
  case False
  then show ?thesis by simp
qed

lemma add_counts_le:
  "fst (snd a) \<le> fst a \<Longrightarrow> fst (snd b) \<le> fst b \<Longrightarrow> fst (snd (add_counts a b)) \<le> fst (add_counts a b)"
  by (simp add: add_counts_def)

lemma foldl_add_counts_le:
  "fst (snd a) \<le> fst a \<Longrightarrow> \<forall>b\<in>set bs. fst (snd b) \<le> fst b \<Longrightarrow>
   fst (snd (foldl add_counts a bs)) \<le> fst (foldl add_counts a bs)"
  by (induction bs arbitrary: a) (auto simp add: add_counts_le)

lemma count_fields_le: "fst (snd (count_fields mk fs)) \<le> fst (count_fields mk fs)"
  by (simp add: count_fields_def)

lemma completeness_company_le: "fst (snd (completeness_company oci)) \<le> fst (completeness_company oci)"
  by (cases oci) (simp_all add: completeness_company_def count_fields_le)

lemma completeness_price_le: "fst (snd (completeness_price op)) \<le> fst (completeness_price op)"
  by (cases op) (simp_all add: completeness_price_def count_fields_le)

lemma completeness_historical_le:
  "fst (snd (completeness_historical hs)) \<le> fst (completeness_historical hs)"
  by (simp add: completeness_historical_def)

lemma statement_components_le: "fst (snd (statement_components stmt)) \<le> fst (statement_components stmt)"
  by (simp add: statement_components_def)

lemma statement_components_all_le:
  "\<forall>b\<in>set (map statement_components xs). fst (snd b) \<le> fst b"
  by (simp add: statement_components_le)

lemma completeness_statements_le:
  "fst (snd (completeness_statements stmts today)) \<le> fst (completeness_statements stmts today)"
proof (cases "stmts = []")
  case True
  then show ?thesis by (simp add: completeness_statements_def)
next
  case False
  have "fst (snd (foldl add_counts
          (if length (filter (\<lambda>stmt. period_ending stmt \<ge> today - 730) stmts) \<ge> 2 then (2, 2, [])
           else if length (filter (\<lambda>stmt. period_ending stmt \<ge> today - 730) stmts) \<ge> 1
                then (2, 1, [LimitedStatements])
                else (2, 0, [NoRecentStatements]))
          (map statement_components (take 2 (filter (\<lambda>stmt. period_ending stmt \<ge> today - 730) stmts)))))
        \<le> fst (foldl add_counts
          (if length (filter (\<lambda>stmt. period_ending stmt \<ge> today - 730) stmts) \<ge> 2 then (2, 2, [])
           else if length (filter (\<lambda>stmt. period_ending stmt \<ge> today - 730) stmts) \<ge> 1
                then (2, 1, [LimitedStatements])
                else (2, 0, [NoRecentStatements]))
          (map statement_components (take 2 (filter (\<lambda>stmt. period_ending stmt \<ge> today - 730) stmts))))"
    by (rule foldl_add_counts_le) (simp, rule statement_components_all_le)
  then show ?thesis using False by (simp add: completeness_statements_def Let_def)
qed

lemma completeness_counts_le:
  "fst (snd (completeness_counts sd today)) \<le> fst (completeness_counts sd today)"
  unfolding completeness_counts_def
  by (rule foldl_add_counts_le)
     (simp_all add: completeness_company_le completeness_price_le completeness_historical_le
       completeness_statements_le)

lemma assess_completeness_bounds:
  "0 \<le> fst (assess_completeness sd today) \<and> fst (assess_completeness sd today) \<le> 100"
  using ratio_bounds [OF completeness_counts_le [of sd today]]
  by (simp add: assess_completeness_def Let_def)

lemma freshness_current_bounds:
  "0 \<le> fst (freshness_current op today) \<and> fst (freshness_current op today) \<le> 100"
  by (simp add: freshness_current_def Let_def split: option.splits)

lemma freshness_historical_bounds:
  "0 \<le> fst (freshness_historical hs today) \<and> fst (freshness_historical hs today) \<le> 100"
  by (simp add: freshness_historical_def Let_def)

lemma freshness_statements_bounds:
  "0 \<le> fst (freshness_statements stmts today) \<and> fst (freshness_statements stmts today) \<le> 100"
  by (simp add: freshness_statements_def Let_def)

lemma freshness_overall_bounds:
  "0 \<le> fst (freshness_overall h) \<and> fst (freshness_overall h) \<le> 100"
  by (simp add: freshness_overall_def)

lemma assess_freshness_bounds:
  "0 \<le> fst (assess_freshness sd today now) \<and> fst (assess_freshness sd today now) \<le> 100"
proof (cases "data_age_hours now (last_updated sd)")
  case (Inl e)
  then show ?thesis by (simp add: assess_freshness_def Let_def)
next
  case (Inr h)
  have "0 \<le> mean [fst (freshness_current (current_price sd) today),
                   fst (freshness_historical (historical_prices sd) today),
                   fst (freshness_statements (financial_statements sd) today),
                   fst (freshness_overall h)] \<and>
        mean [fst (freshness_current (current_price sd) today),
                   fst (freshness_historical (historical_prices sd) today),
                   fst (freshness_statements (financial_statements sd) today),
                   fst (freshness_overall h)] \<le> 100"
    by (rule mean_bounds)
       (simp_all add: freshness_current_bounds freshness_historical_bounds
         freshness_statements_bounds freshness_overall_bounds)
  then show ?thesis using Inr by (simp add: assess_freshness_def Let_def)
qed

lemma validate_price_data_bounds:
  "0 \<le> fst (validate_price_data p silent) \<and> fst (validate_price_data p silent) \<le> 100"
  by (simp add: validate_price_data_def Let_def)

lemma validate_company_info_bounds:
  "0 \<le> fst (validate_company_info ci) \<and> fst (validate_company_info ci) \<le> 100"
  by (simp add: validate_company_info_def Let_def)

lemma valid_prices_le: "valid_prices hs \<le> length hs"
proof -
  have "valid_prices hs \<le> length (take 30 hs)"
    unfolding valid_prices_def by (rule length_filter_le)
  then show ?thesis by simp
qed

lemma price_accuracy_bounds: "0 \<le> price_accuracy hs \<and> price_accuracy hs \<le> 100"
  using ratio_bounds [OF valid_prices_le [of hs]] by (simp add: price_accuracy_def Let_def)

lemma stmt_accuracy_bounds: "0 \<le> stmt_accuracy stmts \<and> stmt_accuracy stmts \<le> 100"
proof -
  have "valid_statements stmts \<le> length stmts"
    unfolding valid_statements_def by (rule length_filter_le)
  from ratio_bounds [OF this] show ?thesis by (simp add: stmt_accuracy_def Let_def)
qed

lemma accuracy_checks_bounds: "\<forall>x\<in>set (accuracy_checks sd). 0 \<le> x \<and> x \<le> 100"
  using validate_price_data_bounds validate_company_info_bounds
    price_accuracy_bounds [of "historical_prices sd"] stmt_accuracy_bounds [of "financial_statements sd"]
  by (auto simp add: accuracy_checks_def accuracy_current_def accuracy_historical_def
      accuracy_statements_def accuracy_company_def Let_def split: option.splits)

lemma assess_accuracy_bounds: "0 \<le> fst (assess_accuracy sd) \<and> fst (assess_accuracy sd) \<le> 100"
  using mean_bounds [OF _ accuracy_checks_bounds [of sd]]
  by (simp add: assess_accuracy_def)

lemma symbol_check_bounds: "\<forall>x\<in>set (fst (symbol_check sd)). 0 \<le> x \<and> x \<le> 100"
  by (simp add: symbol_check_def)

lemma date_gap_check_bounds: "\<forall>x\<in>set (fst (date_gap_check hs)). 0 \<le> x \<and> x \<le> 100"
  by (simp add: date_gap_check_def Let_def)

lemma interval_score_bounds: "\<forall>x\<in>set (fst (interval_score avg)). 0 \<le> x \<and> x \<le> 100"
  by (simp add: interval_score_def)

lemma statement_interval_check_bounds:
  "\<forall>x\<in>set (fst (statement_interval_check stmts)). 0 \<le> x \<and> x \<le> 100"
  using interval_score_bounds by (simp add: statement_interval_check_def Let_def)

lemma outlier_check_bounds: "\<forall>x\<in>set (fst (outlier_check hs)). 0 \<le> x \<and> x \<le> 100"
  by (simp add: outlier_check_def Let_def)

lemma consistency_checks_bounds: "\<forall>x\<in>set (consistency_checks sd). 0 \<le> x \<and> x \<le> 100"
  using symbol_check_bounds [of sd] date_gap_check_bounds [of "historical_prices sd"]
    statement_interval_check_bounds [of "financial_statements sd"]
    outlier_check_bounds [of "historical_prices sd"]
  unfolding consistency_checks_def set_append by blast

lemma assess_consistency_bounds: "0 \<le> fst (assess_consistency sd) \<and> fst (assess_consistency sd) \<le> 100"
  using mean_bounds [OF _ consistency_checks_bounds [of sd]]
  by (simp add: assess_consistency_def)

lemma weighted_score_bounds:
  assumes "0 \<le> c \<and> c \<le> 100" "0 \<le> f \<and> f \<le> 100" "0 \<le> a \<and> a \<le> 100" "0 \<le> k \<and> k \<le> 100"
  shows "0 \<le> weighted_score c f a k \<and> weighted_score c f a k \<le> 100"
  using assms unfolding weighted_score_def by simp

lemma round_half_even_range: "\<lfloor>q\<rfloor> \<le> round_half_even q \<and> round_half_even q \<le> \<lceil>q\<rceil>"
proof (cases "q = of_int \<lfloor>q\<rfloor>")
  case True
  then show ?thesis by (simp add: round_half_even_def Let_def)
next
  case False
  then have "\<lceil>q\<rceil> = \<lfloor>q\<rfloor> + 1" by (metis ceiling_altdef)
  then show ?thesis by (simp add: round_half_even_def Let_def)
qed

lemma round2_bounds:
  assumes "0 \<le> x \<and> x \<le> 100"
  shows "0 \<le> round2 x \<and> round2 x \<le> 100"
proof -
  have l: "0 \<le> \<lfloor>x * 100\<rfloor>" using assms by simp
  have "x * 100 \<le> 10000" using assms by simp
  then have u: "\<lceil>x * 100\<rceil> \<le> 10000" by (simp add: ceiling_le_iff)
  have "0 \<le> round_half_even (x * 100)" "round_half_even (x * 100) \<le> 10000"
    using round_half_even_range [of "x * 100"] l u by linarith+
  then have "(0::rat) \<le> of_int (round_half_even (x * 100))" "(of_int (round_half_even (x * 100)) :: rat) \<le> 10000"
    by simp_all
  then show ?thesis by (simp add: round2_def)
qed


text \<open>
  C1. For every record and data source, the four sub-scores computed by the assessment
  (completeness, freshness, accuracy, consistency) lie in [0,100]; the body of the
  assessment completes without raising, so the report is the one it builds; the overall
  score of the report is the weighted sum with the weights 0.4, 0.3, 0.2 and 0.1, rounded
  to two decimals, and the three stored sub-scores are the computed ones rounded to two
  decimals; all four stored scores lie in [0,100]. The assessment is a total function:
  whatever is raised inside is turned into a report.
\<close>

theorem assess_stock_data_quality_bounds:
  "(let c = fst (assess_completeness sd today);
        f = fst (assess_freshness sd today now);
        a = fst (assess_accuracy sd);
        k = fst (assess_consistency sd);
        m = assess_stock_data_quality sd src today now
    in 0 \<le> c \<and> c \<le> 100 \<and> 0 \<le> f \<and> f \<le> 100 \<and> 0 \<le> a \<and> a \<le> 100 \<and> 0 \<le> k \<and> k \<le> 100 \<and>
       assess_body sd src today now = Inr m \<and>
       quality_score m = round2 (c * (4 / 10) + f * (3 / 10) + a * (2 / 10) + k * (1 / 10)) \<and>
       completeness_score m = round2 c \<and> freshness_score m = round2 f \<and> accuracy_score m = round2 a \<and>
       0 \<le> quality_score m \<and> quality_score m \<le> 100 \<and>
       0 \<le> completeness_score m \<and> completeness_score m \<le> 100 \<and>
       0 \<le> freshness_score m \<and> freshness_score m \<le> 100 \<and>
       0 \<le> accuracy_score m \<and> accuracy_score m \<le> 100)"
proof -
  note c = assess_completeness_bounds [of sd today]
  note f = assess_freshness_bounds [of sd today now]
  note a = assess_accuracy_bounds [of sd]
  note k = assess_consistency_bounds [of sd]
  note w = weighted_score_bounds [OF c f a k]
  note rq = round2_bounds [OF w]
  note rc = round2_bounds [OF c]
  note rf = round2_bounds [OF f]
  note ra = round2_bounds [OF a]
  have body: "assess_body sd src today now =
      Inr \<lparr>dq_symbol = symbol sd, dq_data_source = src,
           quality_score = round2 (weighted_score (fst (assess_completeness sd today))
              (fst (assess_freshness sd today now)) (fst (assess_accuracy sd)) (fst (assess_consistency sd))),
           completeness_score = round2 (fst (assess_completeness sd today)),
           freshness_score = round2 (fst (assess_freshness sd today now)),
           accuracy_score = round2 (fst (assess_accuracy sd)),
           issues = snd (assess_completeness sd today) @ snd (assess_freshness sd today now) @
                    snd (assess_accuracy sd) @ snd (assess_consistency sd)\<rparr>"
    using rq rc rf ra by (simp add: assess_body_def Let_def validate_score_range_def)
  show ?thesis
    using c f a k rq rc rf ra
    by (simp add: Let_def assess_stock_data_quality_def body weighted_score_def)
qed

theorem assess_stock_data_quality_bounds_witness:
  "fst (assess_completeness (record_with None) 0) = 0 \<and>
   fst (assess_freshness (record_with None) 0 0) = 25 \<and>
   fst (assess_accuracy (record_with None)) = 0 \<and>
   fst (assess_consistency (record_with None)) = 50 \<and>
   quality_score (assess_stock_data_quality (record_with None) YAHOO_FINANCE 0 0) = 25 / 2 \<and>
   completeness_score (assess_stock_data_quality (record_with None) YAHOO_FINANCE 0 0) = 0 \<and>
   freshness_score (assess_stock_data_quality (record_with None) YAHOO_FINANCE 0 0) = 25 \<and>
   accuracy_score (assess_stock_data_quality (record_with None) YAHOO_FINANCE 0 0) = 0"
proof -
  have c: "fst (assess_completeness (record_with None) 0) = 0"
    by (simp add: assess_completeness_def completeness_counts_def completeness_company_def
        completeness_price_def completeness_historical_def completeness_statements_def
        add_counts_def record_with_def Let_def)
  have f: "fst (assess_freshness (record_with None) 0 0) = 25"
    by (simp add: assess_freshness_def freshness_current_def freshness_historical_def
        freshness_statements_def freshness_overall_def data_age_hours_def mean_def
        record_with_def Let_def)
  have a: "fst (assess_accuracy (record_with None)) = 0"
    by (simp add: assess_accuracy_def accuracy_checks_def accuracy_current_def
        accuracy_historical_def accuracy_statements_def accuracy_company_def record_with_def)
  have k: "fst (assess_consistency (record_with None)) = 50"
    by (simp add: assess_consistency_def consistency_checks_def symbol_check_def
        collected_symbols_def date_gap_check_def statement_interval_check_def outlier_check_def
        mean_def record_with_def)
  have r0: "round2 0 = 0" by (simp add: round2_def round_half_even_def)
  have r25: "round2 25 = 25" by (simp add: round2_def round_half_even_def)
  have r125: "round2 (25 / 2) = 25 / 2" by (simp add: round2_def round_half_even_def)
  note t = assess_stock_data_quality_bounds [of "record_with None" 0 0 YAHOO_FINANCE]
  have q: "quality_score (assess_stock_data_quality (record_with None) YAHOO_FINANCE 0 0) = 25 / 2"
    using t unfolding Let_def c f a k by (simp add: r125)
  have cs: "completeness_score (assess_stock_data_quality (record_with None) YAHOO_FINANCE 0 0) = 0"
    using t unfolding Let_def c f a k by (simp add: r0)
  have fs: "freshness_score (assess_stock_data_quality (record_with None) YAHOO_FINANCE 0 0) = 25"
    using t unfolding Let_def c f a k by (simp add: r25)
  have as: "accuracy_score (assess_stock_data_quality (record_with None) YAHOO_FINANCE 0 0) = 0"
    using t unfolding Let_def c f a k by (simp add: r0)
  from c f a k q cs fs as show ?thesis by blast
qed

subsection \<open>Cache lifetime\<close>

lemma float_exponent_le:
  assumes "0 < x" and "x < 128"
  shows "float_exponent x \<le> 6"
proof (cases "x \<ge> 1")
  case True
  have "\<lfloor>x\<rfloor> < 2 ^ nat 7" using assms(2) by (simp add: floor_less_iff)
  then have "bitlen \<lfloor>x\<rfloor> \<le> 7" by (simp add: bitlen_le_iff_power)
  then show ?thesis using True by (simp add: float_exponent_def)
next
  case False
  have "0 \<le> bitlen (\<lceil>1 / x\<rceil> - 1)" by (rule bitlen_nonneg)
  then show ?thesis using False by (simp add: float_exponent_def)
qed

lemma float_of_decimal_scaled:
  assumes "0 < x" and "x < 128"
  shows "\<exists>k\<ge>46. float_of_decimal x = of_int (round_half_even (x * 2 ^ k)) / 2 ^ k"
proof -
  let ?e = "float_exponent x"
  have e: "?e \<le> 6" using assms by (rule float_exponent_le)
  let ?k = "nat (52 - ?e)"
  have k: "46 \<le> ?k" using e by simp
  have "float_of_decimal x = of_int (round_half_even (x * 2 ^ ?k)) / 2 ^ ?k"
    using assms(1) e by (simp add: float_of_decimal_def Let_def)
  then show ?thesis using k by blast
qed

lemma float_of_decimal_threshold:
  assumes "0 \<le> n" and "n \<le> 10000" and "1 \<le> c"
  shows "(of_int c \<le> float_of_decimal (of_int n / 100)) \<longleftrightarrow> ((of_int c :: rat) \<le> of_int n / 100)"
proof (cases "n = 0")
  case True
  then show ?thesis using assms(3) by (simp add: float_of_decimal_def)
next
  case False
  let ?x = "of_int n / 100 :: rat"
  have pos: "0 < ?x" using assms(1) False by simp
  have lt: "?x < 128" using assms(2) by simp
  from float_of_decimal_scaled [OF pos lt] obtain k where
    k: "46 \<le> k" and fl: "float_of_decimal ?x = of_int (round_half_even (?x * 2 ^ k)) / 2 ^ k"
    by blast
  have p46: "(2::int) ^ 46 \<le> 2 ^ k" using k by (intro power_increasing) simp_all
  have "(100::int) \<le> 2 ^ 46" by simp
  then have big: "(100::int) \<le> 2 ^ k" using p46 by (rule order_trans)
  show ?thesis
  proof (cases "(of_int c :: rat) \<le> ?x")
    case True
    have "(of_int (c * 2 ^ k) :: rat) \<le> ?x * 2 ^ k" using True by (simp add: mult_right_mono)
    then have "c * 2 ^ k \<le> \<lfloor>?x * 2 ^ k\<rfloor>" by (simp add: le_floor_iff)
    then have "c * 2 ^ k \<le> round_half_even (?x * 2 ^ k)"
      using round_half_even_range [of "?x * 2 ^ k"] by linarith
    then have "(of_int (c * 2 ^ k) :: rat) \<le> of_int (round_half_even (?x * 2 ^ k))"
      by (simp only: of_int_le_iff)
    then have "(of_int c :: rat) \<le> of_int (round_half_even (?x * 2 ^ k)) / 2 ^ k"
      by (simp add: pos_le_divide_eq)
    then show ?thesis using True fl by simp
  next
    case False
    then have "n < 100 * c" by (simp add: pos_divide_less_eq)
    then have n: "n \<le> 100 * c - 1" by simp
    have "n * 2 ^ k \<le> (100 * c - 1) * 2 ^ k" using n by (simp add: mult_right_mono)
    also have "\<dots> = 100 * (c * 2 ^ k) - 2 ^ k" by (simp add: algebra_simps)
    also have "\<dots> \<le> 100 * (c * 2 ^ k) - 100" using big by simp
    finally have i: "n * 2 ^ k \<le> 100 * (c * 2 ^ k - 1)" by simp
    have "(of_int (n * 2 ^ k) :: rat) \<le> of_int (100 * (c * 2 ^ k - 1))"
      using i by (simp only: of_int_le_iff)
    then have "(of_int n :: rat) * 2 ^ k \<le> 100 * (of_int c * 2 ^ k - 1)" by simp
    then have "?x * 2 ^ k \<le> of_int c * 2 ^ k - 1" by (simp add: field_simps)
    then have "?x * 2 ^ k \<le> of_int (c * 2 ^ k - 1)" by simp
    then have "\<lceil>?x * 2 ^ k\<rceil> \<le> c * 2 ^ k - 1" by (simp only: ceiling_le_iff)
    then have "round_half_even (?x * 2 ^ k) < c * 2 ^ k"
      using round_half_even_range [of "?x * 2 ^ k"] by linarith
    then have "(of_int (round_half_even (?x * 2 ^ k)) :: rat) < of_int (c * 2 ^ k)"
      by (simp only: of_int_less_iff)
    then have "(of_int (round_half_even (?x * 2 ^ k)) :: rat) / 2 ^ k < of_int c"
      by (simp add: pos_divide_less_eq)
    then show ?thesis using False fl by simp
  qed
qed

lemma assessed_score_two_decimals:
  "\<exists>n. 0 \<le> n \<and> n \<le> 10000 \<and>
       quality_score (assess_stock_data_quality r src today now) = of_int n / 100"
proof (cases "assess_body r src today now")
  case (Inl e)
  then have "quality_score (assess_stock_data_quality r src today now) = of_int 0 / 100"
    by (simp add: assess_stock_data_quality_def)
  then show ?thesis by (intro exI [of _ 0]) simp
next
  case (Inr m)
  let ?w = "weighted_score (fst (assess_completeness r today)) (fst (assess_freshness r today now))
              (fst (assess_accuracy r)) (fst (assess_consistency r))"
  have v: "validate_score_range (round2 ?w)" and q: "quality_score m = round2 ?w"
    using Inr by (auto simp add: assess_body_def Let_def split: if_splits)
  let ?n = "round_half_even (?w * 100)"
  have "0 \<le> (of_int ?n :: rat) \<and> (of_int ?n :: rat) \<le> 10000"
    using v by (simp add: validate_score_range_def round2_def)
  then have "0 \<le> ?n \<and> ?n \<le> 10000" by linarith
  moreover have "quality_score (assess_stock_data_quality r src today now) = of_int ?n / 100"
    using Inr q by (simp add: assess_stock_data_quality_def round2_def)
  ultimately show ?thesis by blast
qed

text \<open>
  C3. The cache lifetime of a record is determined by its quality score, with base 900
  seconds: for every score with two decimals between 0 and 100, a score of at least 90
  gives 1800 seconds, a score from 75 up to 90 gives 900 seconds, a score from 60 up to 75
  gives 450 seconds and a lower score gives 225 seconds; a record without a quality report
  is cached for 900 seconds. Every score that the assessor writes has two decimals and
  lies between 0 and 100, so the conversion of the score to a double moves no score across
  a band.
\<close>

theorem determine_cache_ttl_by_score:
  "(data_quality sd = None \<longrightarrow> determine_cache_ttl sd = 900) \<and>
   (\<forall>q n. data_quality sd = Some q \<and> quality_score q = of_int n / 100 \<and> 0 \<le> n \<and> n \<le> 10000 \<longrightarrow>
      (quality_score q \<ge> 90 \<longrightarrow> determine_cache_ttl sd = 1800) \<and>
      (75 \<le> quality_score q \<and> quality_score q < 90 \<longrightarrow> determine_cache_ttl sd = 900) \<and>
      (60 \<le> quality_score q \<and> quality_score q < 75 \<longrightarrow> determine_cache_ttl sd = 450) \<and>
      (quality_score q < 60 \<longrightarrow> determine_cache_ttl sd = 225)) \<and>
   (\<exists>n. 0 \<le> n \<and> n \<le> 10000 \<and>
        quality_score (assess_stock_data_quality r src today now) = of_int n / 100)"
proof -
  have none: "data_quality sd = None \<longrightarrow> determine_cache_ttl sd = 900"
    by (simp add: determine_cache_ttl_def)
  have bands: "\<forall>q n. data_quality sd = Some q \<and> quality_score q = of_int n / 100 \<and> 0 \<le> n \<and> n \<le> 10000 \<longrightarrow>
      (quality_score q \<ge> 90 \<longrightarrow> determine_cache_ttl sd = 1800) \<and>
      (75 \<le> quality_score q \<and> quality_score q < 90 \<longrightarrow> determine_cache_ttl sd = 900) \<and>
      (60 \<le> quality_score q \<and> quality_score q < 75 \<longrightarrow> determine_cache_ttl sd = 450) \<and>
      (quality_score q < 60 \<longrightarrow> determine_cache_ttl sd = 225)"
  proof (intro allI impI)
    fix q n
    assume h: "data_quality sd = Some q \<and> quality_score q = of_int n / 100 \<and> 0 \<le> n \<and> n \<le> 10000"
    then have lo: "0 \<le> n" and hi: "n \<le> 10000" and qs: "quality_score q = of_int n / 100"
      by simp_all
    have t90: "(90 \<le> float_of_decimal (quality_score q)) \<longleftrightarrow> (90 \<le> quality_score q)"
      unfolding qs using float_of_decimal_threshold [OF lo hi, of 90] by simp
    have t75: "(75 \<le> float_of_decimal (quality_score q)) \<longleftrightarrow> (75 \<le> quality_score q)"
      unfolding qs using float_of_decimal_threshold [OF lo hi, of 75] by simp
    have t60: "(60 \<le> float_of_decimal (quality_score q)) \<longleftrightarrow> (60 \<le> quality_score q)"
      unfolding qs using float_of_decimal_threshold [OF lo hi, of 60] by simp
    have dq: "data_quality sd = Some q" using h by simp
    have d: "determine_cache_ttl sd =
        (if 90 \<le> quality_score q then 1800
         else if 75 \<le> quality_score q then 900
         else if 60 \<le> quality_score q then 450 else 225)"
      by (simp add: determine_cache_ttl_def Let_def dq t90 t75 t60)
    show "(quality_score q \<ge> 90 \<longrightarrow> determine_cache_ttl sd = 1800) \<and>
      (75 \<le> quality_score q \<and> quality_score q < 90 \<longrightarrow> determine_cache_ttl sd = 900) \<and>
      (60 \<le> quality_score q \<and> quality_score q < 75 \<longrightarrow> determine_cache_ttl sd = 450) \<and>
      (quality_score q < 60 \<longrightarrow> determine_cache_ttl sd = 225)"
      unfolding d by simp
  qed
  from none bands assessed_score_two_decimals show ?thesis by blast
qed

theorem determine_cache_ttl_by_score_witness:
  "quality_score (report 95) = of_int 9500 / 100 \<and>
   determine_cache_ttl (record_with (Some (report 95))) = 1800 \<and>
   quality_score (report 30) = of_int 3000 / 100 \<and>
   determine_cache_ttl (record_with (Some (report 30))) = 225 \<and>
   determine_cache_ttl (record_with None) = 900"
proof -
  have q95: "quality_score (report 95) = of_int 9500 / 100" by (simp add: report_def)
  have q30: "quality_score (report 30) = of_int 3000 / 100" by (simp add: report_def)
  have d95: "data_quality (record_with (Some (report 95))) = Some (report 95)"
    by (simp add: record_with_def)
  have d30: "data_quality (record_with (Some (report 30))) = Some (report 30)"
    by (simp add: record_with_def)
  have dn: "data_quality (record_with None) = None" by (simp add: record_with_def)
  have g95: "quality_score (report 95) \<ge> 90" by (simp add: report_def)
  have l30: "quality_score (report 30) < 60" by (simp add: report_def)
  note t95 = determine_cache_ttl_by_score [of "record_with (Some (report 95))"]
  note t30 = determine_cache_ttl_by_score [of "record_with (Some (report 30))"]
  note tn = determine_cache_ttl_by_score [of "record_with None"]
  have r95: "(0::int) \<le> 9500" "(9500::int) \<le> 10000" by simp_all
  have r30: "(0::int) \<le> 3000" "(3000::int) \<le> 10000" by simp_all
  have a: "determine_cache_ttl (record_with (Some (report 95))) = 1800"
    using t95 d95 q95 g95 r95 by blast
  have b: "determine_cache_ttl (record_with (Some (report 30))) = 225"
    using t30 d30 q30 l30 r30 by blast
  have c: "determine_cache_ttl (record_with None) = 900"
    using tn dn by blast
  from q95 a q30 b c show ?thesis by blast
qed

text \<open>
  Off the two-decimal grid the conversion can move a score across a band: a report
  holding the score 89.99999999999999999 is cached for 1800 seconds, because the nearest
  double is 90.
\<close>

lemma determine_cache_ttl_off_grid:
  "determine_cache_ttl (record_with (Some (report (90 - 1 / 10 ^ 17)))) = 1800"
  by code_simp

subsection \<open>Source fallback\<close>

lemma check_rate_limit_local:
  "rls s = rls' s \<Longrightarrow> fst (check_rate_limit now rls s) = fst (check_rate_limit now rls' s)"
  by (simp add: check_rate_limit_def check_rate_limit_body_def Let_def
      split: option.splits sum.splits)

lemma check_rate_limit_other:
  "s \<noteq> source \<Longrightarrow> snd (check_rate_limit now rls source) s = rls s"
proof (cases "rls source")
  case None
  then show ?thesis by (simp add: check_rate_limit_def check_rate_limit_body_def)
next
  case (Some rl)
  assume "s \<noteq> source"
  then show ?thesis
    using Some
    by (cases "now_after now (reset_time rl)")
       (simp_all add: check_rate_limit_def check_rate_limit_body_def Let_def)
qed

lemma update_rate_limit_other:
  "s \<noteq> source \<Longrightarrow> update_rate_limit rls source s = rls s"
  by (simp add: update_rate_limit_def split: option.splits)

lemma fetch_from_other:
  "s \<noteq> source \<Longrightarrow> snd (fetch_from E rls ticker source) s = rls s"
  by (cases source; cases "yahoo_get_stock_data E ticker"; cases "av_get_comprehensive_data E ticker")
     (simp_all add: fetch_from_def get_data_from_yahoo_def get_data_from_alpha_vantage_def
       update_rate_limit_other)

lemma fetch_from_data:
  "fst (fetch_from E rls ticker source) = source_data E ticker source"
  by (cases source)
     (simp_all add: fetch_from_def get_data_from_yahoo_def get_data_from_alpha_vantage_def
       source_data_def split: sum.splits)

lemma first_yielding_cong:
  "\<forall>s\<in>set candidates. rls s = rls' s \<Longrightarrow>
   first_yielding E rls ticker candidates = first_yielding E rls' ticker candidates"
proof -
  assume h: "\<forall>s\<in>set candidates. rls s = rls' s"
  have "find (\<lambda>s. fst (check_rate_limit (clock_now E) rls s) \<and> source_data E ticker s \<noteq> None) candidates
      = find (\<lambda>s. fst (check_rate_limit (clock_now E) rls' s) \<and> source_data E ticker s \<noteq> None) candidates"
    using h by (intro find_cong) (auto simp add: check_rate_limit_local [of rls _ rls'])
  then show ?thesis by (simp add: first_yielding_def)
qed

lemma first_yielding_Cons:
  "first_yielding E rls ticker (source # rest) =
     (if fst (check_rate_limit (clock_now E) rls source) \<and> source_data E ticker source \<noteq> None
      then Some (the (source_data E ticker source), source)
      else first_yielding E rls ticker rest)"
  by (auto simp add: first_yielding_def)

lemma try_sources_first_yielding:
  "distinct candidates \<Longrightarrow>
   fst (try_sources E ticker candidates rls) = first_yielding E rls ticker candidates"
proof (induction candidates arbitrary: rls)
  case Nil
  then show ?case by (simp add: first_yielding_def)
next
  case (Cons source rest)
  have d: "distinct rest" and n: "\<forall>s\<in>set rest. s \<noteq> source" using Cons.prems by auto
  show ?case
  proof (cases "fst (check_rate_limit (clock_now E) rls source)")
    case False
    have "first_yielding E (snd (check_rate_limit (clock_now E) rls source)) ticker rest
        = first_yielding E rls ticker rest"
      by (rule first_yielding_cong) (use n in \<open>simp add: check_rate_limit_other\<close>)
    then show ?thesis
      using False Cons.IH [OF d] by (simp add: first_yielding_Cons Let_def)
  next
    case True
    show ?thesis
    proof (cases "source_data E ticker source")
      case None
      have "first_yielding E (snd (fetch_from E (snd (check_rate_limit (clock_now E) rls source)) ticker source))
              ticker rest
          = first_yielding E rls ticker rest"
        by (rule first_yielding_cong)
           (use n in \<open>simp add: check_rate_limit_other fetch_from_other\<close>)
      then show ?thesis
        using True None Cons.IH [OF d] by (simp add: first_yielding_Cons Let_def fetch_from_data)
    next
      case (Some stock_data)
      then show ?thesis
        using True by (simp add: first_yielding_Cons Let_def fetch_from_data)
    qed
  qed
qed

lemma sources_to_try_distinct: "distinct (sources_to_try preferred_source)"
  by (simp add: sources_to_try_def data_source_priority_def split: option.splits)

lemma attach_quality_flag:
  "enable_quality_assessment S' = enable_quality_assessment S \<Longrightarrow>
   attach_quality E S' stock_data source = attach_quality E S stock_data source"
  by (simp add: attach_quality_def)

lemma get_stock_data_miss:
  assumes "cache_hit S (upper symbol_arg) force_refresh = None"
  shows "fst (get_stock_data E S symbol_arg force_refresh preferred_source) =
           (case first_yielding E (rate_limits S) (upper symbol_arg) (sources_to_try preferred_source) of
              None \<Rightarrow> None
            | Some (stock_data, source) \<Rightarrow> Some (FromSource (attach_quality E S stock_data source)))"
proof -
  let ?t = "upper symbol_arg"
  let ?S1 = "if \<not> force_refresh \<and> enable_caching S
             then S\<lparr>service_metrics := bump_misses (service_metrics S)\<rparr> else S"
  let ?r = "try_sources E ?t (sources_to_try preferred_source) (rate_limits S)"
  have rl: "rate_limits ?S1 = rate_limits S" by simp
  have fl: "enable_quality_assessment (?S1\<lparr>rate_limits := snd ?r\<rparr>) = enable_quality_assessment S"
    by simp
  have fy: "fst ?r = first_yielding E (rate_limits S) ?t (sources_to_try preferred_source)"
    by (rule try_sources_first_yielding [OF sources_to_try_distinct])
  have g: "get_stock_data E S symbol_arg force_refresh preferred_source =
      (case fst ?r of
         None \<Rightarrow> (None, ?S1\<lparr>rate_limits := snd ?r\<rparr>)
       | Some (stock_data, source) \<Rightarrow>
           (Some (FromSource (fst (finish_lookup E (?S1\<lparr>rate_limits := snd ?r\<rparr>) ?t stock_data source))),
            snd (finish_lookup E (?S1\<lparr>rate_limits := snd ?r\<rparr>) ?t stock_data source)))"
    using assms unfolding get_stock_data_def Let_def rl by simp
  have fin: "\<And>stock_data source.
      fst (finish_lookup E (?S1\<lparr>rate_limits := snd ?r\<rparr>) ?t stock_data source) =
      attach_quality E S stock_data source"
    unfolding finish_lookup_def Let_def fst_conv by (rule attach_quality_flag [OF fl])
  show "fst (get_stock_data E S symbol_arg force_refresh preferred_source) =
           (case first_yielding E (rate_limits S) (upper symbol_arg) (sources_to_try preferred_source) of
              None \<Rightarrow> None
            | Some (stock_data, source) \<Rightarrow> Some (FromSource (attach_quality E S stock_data source)))"
  proof (cases "fst ?r")
    case None
    then show ?thesis unfolding g fy [symmetric] by simp
  next
    case (Some p)
    obtain stock_data source where p: "p = (stock_data, source)" by (cases p)
    show ?thesis unfolding g fy [symmetric] Some p by (simp add: fin)
  qed
qed

text \<open>
  C2. When the cache gives no hit (refresh forced, caching off, or no truthy entry for the
  upper-cased symbol), \<open>get_stock_data\<close> consults the candidates in order: the preferred
  source alone if one is given, else Yahoo Finance then Alpha Vantage. A source that the
  rate-limit check denies is skipped, a source whose fetch raises or returns nothing is
  passed over, and the result is the record of the first source that yields one, with
  the quality report attached to it and nothing else changed; when no candidate yields
  data the result is \<open>None\<close>. In particular, with no preferred source, Yahoo Finance
  denied and Alpha Vantage allowed and yielding a record, the result is that record.
\<close>

theorem get_stock_data_fallback:
  assumes "cache_hit S (upper symbol_arg) force_refresh = None"
  shows "fst (get_stock_data E S symbol_arg force_refresh preferred_source) =
           (case first_yielding E (rate_limits S) (upper symbol_arg) (sources_to_try preferred_source) of
              None \<Rightarrow> None
            | Some (stock_data, source) \<Rightarrow> Some (FromSource (attach_quality E S stock_data source))) \<and>
         sources_to_try (Some p) = [p] \<and>
         sources_to_try None = [YAHOO_FINANCE, ALPHA_VANTAGE] \<and>
         attach_quality E S d s = d\<lparr>data_quality := data_quality (attach_quality E S d s)\<rparr> \<and>
         (preferred_source = None \<and>
          \<not> fst (check_rate_limit (clock_now E) (rate_limits S) YAHOO_FINANCE) \<and>
          fst (check_rate_limit (clock_now E) (rate_limits S) ALPHA_VANTAGE) \<and>
          source_data E (upper symbol_arg) ALPHA_VANTAGE = Some d
          \<longrightarrow> fst (get_stock_data E S symbol_arg force_refresh preferred_source) =
                Some (FromSource (attach_quality E S d ALPHA_VANTAGE)))"
proof -
  have main: "fst (get_stock_data E S symbol_arg force_refresh preferred_source) =
           (case first_yielding E (rate_limits S) (upper symbol_arg) (sources_to_try preferred_source) of
              None \<Rightarrow> None
            | Some (stock_data, source) \<Rightarrow> Some (FromSource (attach_quality E S stock_data source)))"
    using assms by (rule get_stock_data_miss)
  have s1: "sources_to_try (Some p) = [p]" by (simp add: sources_to_try_def)
  have s2: "sources_to_try None = [YAHOO_FINANCE, ALPHA_VANTAGE]"
    by (simp add: sources_to_try_def data_source_priority_def)
  have q: "attach_quality E S d s = d\<lparr>data_quality := data_quality (attach_quality E S d s)\<rparr>"
    by (simp add: attach_quality_def)
  have part: "preferred_source = None \<and>
          \<not> fst (check_rate_limit (clock_now E) (rate_limits S) YAHOO_FINANCE) \<and>
          fst (check_rate_limit (clock_now E) (rate_limits S) ALPHA_VANTAGE) \<and>
          source_data E (upper symbol_arg) ALPHA_VANTAGE = Some d
          \<longrightarrow> fst (get_stock_data E S symbol_arg force_refresh preferred_source) =
                Some (FromSource (attach_quality E S d ALPHA_VANTAGE))"
    unfolding main by (simp add: s2 first_yielding_Cons)
  from main s1 s2 q part show ?thesis by blast
qed



theorem get_stock_data_fallback_witness:
  "cache_hit example_service (upper ''aapl'') False = None \<and>
   \<not> fst (check_rate_limit (clock_now example_env) (rate_limits example_service) YAHOO_FINANCE) \<and>
   fst (check_rate_limit (clock_now example_env) (rate_limits example_service) ALPHA_VANTAGE) \<and>
   source_data example_env (upper ''aapl'') ALPHA_VANTAGE = Some av_record \<and>
   fst (get_stock_data example_env example_service ''aapl'' False None) =
     Some (FromSource (attach_quality example_env example_service av_record ALPHA_VANTAGE))"
proof -
  have u: "upper ''aapl'' = ''AAPL''" by code_simp
  have h: "cache_hit example_service (upper ''aapl'') False = None"
    by (simp add: cache_hit_def example_service_def)
  have y: "\<not> fst (check_rate_limit (clock_now example_env) (rate_limits example_service) YAHOO_FINANCE)"
    by (simp add: example_env_def example_service_def yahoo_exhausted_def yahoo_budget_def
        check_rate_limit_def check_rate_limit_body_def now_after_def is_limit_exceeded_def Let_def)
  have a: "fst (check_rate_limit (clock_now example_env) (rate_limits example_service) ALPHA_VANTAGE)"
    by (simp add: example_env_def example_service_def yahoo_exhausted_def initial_rate_limits_def
        days_def check_rate_limit_def check_rate_limit_body_def now_after_def is_limit_exceeded_def Let_def)
  have d: "source_data example_env (upper ''aapl'') ALPHA_VANTAGE = Some av_record"
    unfolding u by (simp add: source_data_def example_env_def)
  from get_stock_data_fallback [OF h, where E = example_env and preferred_source = None and d = av_record]
    y a d
  have "fst (get_stock_data example_env example_service ''aapl'' False None) =
     Some (FromSource (attach_quality example_env example_service av_record ALPHA_VANTAGE))"
    by blast
  with h y a d show ?thesis by blast
qed

subsection \<open>Batch lookup\<close>



lemma process_results_local:
  "m t = m' t \<Longrightarrow> process_results m rs t = process_results m' rs t"
proof (induction rs arbitrary: m m')
  case Nil
  then show ?case by simp
next
  case (Cons r rs)
  show ?case
  proof (cases r)
    case (Inl e)
    have "process_results m rs t = process_results m' rs t"
      using Cons.prems by (rule Cons.IH)
    then show ?thesis unfolding Inl by (simp only: process_results.simps)
  next
    case (Inr p)
    obtain s d where p: "p = (s, d)" by (cases p)
    have "(m(s \<mapsto> d)) t = (m'(s \<mapsto> d)) t" using Cons.prems by simp
    then have "process_results (m(s \<mapsto> d)) rs t = process_results (m'(s \<mapsto> d)) rs t"
      by (rule Cons.IH)
    then show ?thesis unfolding Inr p by (simp only: process_results.simps)
  qed
qed











end
